theory Spec2Isabelle
  imports Main
begin

section \<open>Values shared by the three bot scripts\<close>

text \<open>
  The repository holds three variants of one Discord bot: \<^verbatim>\<open>ionetbot.js\<close> (private
  channels, MongoDB), \<^verbatim>\<open>ionetbot_withoutMongoDB.js\<close> (the same without the database) and
  \<^verbatim>\<open>ionetbot_test_dm.js\<close> (direct-message sessions). Identifiers are Discord snowflakes
  and OpenAI object ids, both strings. Times are milliseconds since the epoch, as
  \<^verbatim>\<open>Date.now()\<close> returns them. A rejected promise or thrown exception is the left
  injection of a sum, carrying the error's text.
\<close>

type_synonym snowflake = string
type_synonym js_error = string
type_synonym millis = nat

datatype channel_type = GuildText | DM | OtherChannel

record channel =
  ch_id :: snowflake
  ch_name :: string

record message =
  author_bot :: bool
  author_id :: snowflake
  content :: string
  channel_id :: snowflake
  channel_type :: channel_type
  channel_name :: string

text \<open>The documents the bot inserts into MongoDB collections.\<close>

datatype doc =
    ChannelCreation snowflake snowflake millis
  | ChannelDeletion snowflake millis
  | PrivateMessage snowflake snowflake string string millis

text \<open>
  Every call the bot makes on a collaborator, and every console line, is recorded in
  order in a trace of effects.
\<close>

datatype effect =
    ConsoleLog string
  | ConsoleError string
  | Sleep nat
  | Reply string
  | AuthorSend string
  | SendTyping
  | ThreadsCreate
  | MessagesCreate string string
  | RunsCreate string
  | RunsRetrieve string string
  | MessagesList string
  | Inserted string doc
  | ChannelsCreate string
  | ChannelSend snowflake string
  | SetTimeout snowflake nat
  | ChannelsFetch snowflake
  | ChannelDelete snowflake

text \<open>The in-memory state: the module-level variables of the scripts.
  \<^verbatim>\<open>threadMap\<close> and \<^verbatim>\<open>nextAvailableTime\<close> exist in all three; \<^verbatim>\<open>channelsMap\<close> in the two
  private-channel scripts; \<^verbatim>\<open>dmSessions\<close> in the direct-message script.\<close>

record bot_state =
  threadMap :: "snowflake \<rightharpoonup> string"
  channelsMap :: "snowflake \<rightharpoonup> channel"
  dmSessions :: "snowflake \<rightharpoonup> millis"
  nextAvailableTime :: millis

text \<open>\<^verbatim>\<open>String.prototype.startsWith\<close>.\<close>

definition startsWith :: "string \<Rightarrow> string \<Rightarrow> bool" where
  "startsWith s p \<longleftrightarrow> take (length p) s = p"

section \<open>The run driver: \<^verbatim>\<open>statusCheckLoop\<close>\<close>

definition terminalStates :: "string list" where
  "terminalStates = [''cancelled'', ''failed'', ''completed'', ''expired'']"

text \<open>
  \<^verbatim>\<open>statusCheckLoop\<close> retrieves the run, and when its status is not terminal sleeps
  1000 ms and calls itself. The backend's answers to the successive
  \<^verbatim>\<open>runs.retrieve\<close> calls are a list, one entry per call: a status, or the error the
  call throws. The function returns the outcome, the effects and the unused answers;
  \<open>None\<close> says that the answers ran out with no terminal status seen (the loop is still
  polling). The recursive call is returned without \<^verbatim>\<open>await\<close>, so a rejection coming from
  it passes through the outer \<^verbatim>\<open>catch\<close> blocks unlogged: only the frame whose own
  retrieve failed logs.
\<close>

fun statusCheckLoop ::
  "string \<Rightarrow> string \<Rightarrow> (js_error + string) list
     \<Rightarrow> ((js_error + string) \<times> effect list \<times> (js_error + string) list) option" where
  "statusCheckLoop tid rid [] = None"
| "statusCheckLoop tid rid (Inl e # rest) =
     Some (Inl e,
           [RunsRetrieve tid rid, ConsoleError (''Error retrieving the run status: '' @ e)],
           rest)"
| "statusCheckLoop tid rid (Inr status # rest) =
     (if status \<notin> set terminalStates then
        (case statusCheckLoop tid rid rest of
           None \<Rightarrow> None
         | Some (r, effs, rest') \<Rightarrow>
             Some (r, RunsRetrieve tid rid # Sleep 1000 # effs, rest'))
      else Some (Inr status, [RunsRetrieve tid rid], rest))"

text \<open>The number of suspensions in a trace, and their durations.\<close>

fun sleeps :: "effect list \<Rightarrow> nat list" where
  "sleeps [] = []"
| "sleeps (Sleep ms # es) = ms # sleeps es"
| "sleeps (_ # es) = sleeps es"

text \<open>The trace of \<open>n\<close> polls that each found a non-terminal status.\<close>

fun waiting :: "string \<Rightarrow> string \<Rightarrow> nat \<Rightarrow> effect list" where
  "waiting tid rid 0 = []"
| "waiting tid rid (Suc n) = RunsRetrieve tid rid # Sleep 1000 # waiting tid rid n"

section \<open>Persistence: \<^verbatim>\<open>withDb\<close>\<close>

text \<open>
  \<^verbatim>\<open>withDb(operation)\<close> runs the operation inside \<^verbatim>\<open>try\<close>/\<^verbatim>\<open>catch\<close> and logs what it
  throws. Every operation in the script is one \<^verbatim>\<open>insertOne\<close> into a collection; its
  outcome is \<open>None\<close> when the document was stored and \<open>Some e\<close> when obtaining the
  database or inserting threw \<open>e\<close>. The first component is how the promise returned by
  \<^verbatim>\<open>withDb\<close> settles.
\<close>

definition withDb :: "js_error option \<Rightarrow> string \<Rightarrow> doc \<Rightarrow> (js_error + unit) \<times> effect list" where
  "withDb outcome coll d =
     (case outcome of
        None \<Rightarrow> (Inr (), [Inserted coll d])
      | Some e \<Rightarrow> (Inr (), [ConsoleError (''Error during DB operation: '' @ e)]))"

section \<open>Thread registry and rate gate\<close>

definition getOpenAiThreadId :: "bot_state \<Rightarrow> snowflake \<Rightarrow> string option" where
  "getOpenAiThreadId st discordThreadId = threadMap st discordThreadId"

definition addThreadToMap :: "snowflake \<Rightarrow> string \<Rightarrow> bot_state \<Rightarrow> bot_state" where
  "addThreadToMap discordThreadId openAiThreadId st =
     st\<lparr>threadMap := (threadMap st)(discordThreadId \<mapsto> openAiThreadId)\<rparr>"

text \<open>
  The lookup-or-create lines of the message handler (\<^verbatim>\<open>let openAiThreadId = ...\<close> to
  \<^verbatim>\<open>addThreadToMap\<close>), run without interruption. \<open>created\<close> is what
  \<^verbatim>\<open>openai.beta.threads.create()\<close> answers if it is called: the new thread's id, or
  an error, which leaves the handler (the call is outside the \<^verbatim>\<open>try\<close>). The test
  \<^verbatim>\<open>!openAiThreadId\<close> holds for \<^verbatim>\<open>undefined\<close> and for the empty string.
\<close>

definition resolve_thread ::
  "(js_error + string) \<Rightarrow> bot_state \<Rightarrow> snowflake \<Rightarrow> (js_error + string) \<times> effect list \<times> bot_state" where
  "resolve_thread created st c =
     (case getOpenAiThreadId st c of
        None \<Rightarrow>
          (case created of
             Inl e \<Rightarrow> (Inl e, [ThreadsCreate], st)
           | Inr t \<Rightarrow> (Inr t, [ThreadsCreate], addThreadToMap c t st))
      | Some openAiThreadId \<Rightarrow>
          if openAiThreadId = [] then
            (case created of
               Inl e \<Rightarrow> (Inl e, [ThreadsCreate], st)
             | Inr t \<Rightarrow> (Inr t, [ThreadsCreate], addThreadToMap c t st))
          else (Inr openAiThreadId, [], st))"

text \<open>The admission test \<^verbatim>\<open>Date.now() < nextAvailableTime\<close> and the penalty
  \<^verbatim>\<open>nextAvailableTime = Date.now() + 20 * 1000\<close>.\<close>

definition rate_limited :: "millis \<Rightarrow> bot_state \<Rightarrow> bool" where
  "rate_limited now st \<longleftrightarrow> now < nextAvailableTime st"

definition penalize :: "millis \<Rightarrow> bot_state \<Rightarrow> bot_state" where
  "penalize now st = st\<lparr>nextAvailableTime := now + 20 * 1000\<rparr>"

section \<open>The message handler of \<^verbatim>\<open>ionetbot.js\<close>\<close>

text \<open>
  What the collaborators answer during one run of the handler: one field per call site.
  For a call whose result is not used, \<open>None\<close> is success and \<open>Some e\<close> the error thrown.
\<close>

datatype content_part = TextPart string | OtherPart

record env =
  now_session :: millis
  now_gate :: millis
  reply_wait :: "js_error option"
  threads_create :: "js_error + string"
  send_typing :: "js_error option"
  messages_create :: "js_error option"
  runs_create :: "js_error + string"
  polls :: "(js_error + string) list"
  reply_failed :: "js_error option"
  details :: "js_error + string option"
  now_penalty :: millis
  messages_list :: "js_error + content_part list list option"
  reply_response :: "js_error option"
  db_insert :: "js_error option"
  now_record :: millis
  reply_catch :: "js_error option"

record create_env =
  channels_create :: "js_error + snowflake"
  channel_send :: "js_error option"
  reply_created :: "js_error option"
  db_event :: "js_error option"
  now_event :: millis
  reply_create_failed :: "js_error option"

definition COMMAND_CHANNEL_ID :: snowflake where
  "COMMAND_CHANNEL_ID = ''YOUR_COMMAND_CHANNEL_ID''"

definition wait_notice :: string where
  "wait_notice = ''Please wait a moment before making the next request.''"

definition failed_notice :: string where
  "failed_notice = ''An error occurred while processing your request. Please try again later.''"

definition generic_notice :: string where
  "generic_notice = ''An error occurred while processing your message.''"

text \<open>\<^verbatim>\<open>String.prototype.substring\<close> on non-negative indices.\<close>

definition substring :: "string \<Rightarrow> nat \<Rightarrow> nat \<Rightarrow> string" where
  "substring s a b = take (max a b - min a b) (drop (min a b) s)"

text \<open>\<^verbatim>\<open>messages.data[0].content[0].text.value\<close>: a TypeError when the message has no
  content part or the first part has no text.\<close>

definition first_text :: "content_part list \<Rightarrow> js_error + string" where
  "first_text parts =
     (case parts of
        [] \<Rightarrow> Inl ''TypeError''
      | OtherPart # _ \<Rightarrow> Inl ''TypeError''
      | TextPart v # _ \<Rightarrow> Inr v)"

text \<open>The branch for a run that ended \<^verbatim>\<open>failed\<close>.\<close>

definition failed_branch ::
  "env \<Rightarrow> bot_state \<Rightarrow> string \<Rightarrow> string \<Rightarrow> (js_error + unit) \<times> effect list \<times> bot_state" where
  "failed_branch env st tid rid =
     (let said = [ConsoleLog (''Run failed for thread ID '' @ tid @ ''.''), Reply failed_notice] in
      case reply_failed env of
        Some e \<Rightarrow> (Inl e, said, st)
      | None \<Rightarrow>
          (case details env of
             Inl e \<Rightarrow> (Inl e, said @ [RunsRetrieve tid rid], st)
           | Inr last_error \<Rightarrow>
               (Inr (), said @ [RunsRetrieve tid rid],
                if last_error = Some ''rate_limit_exceeded''
                then penalize (now_penalty env) st else st)))"

text \<open>The branch for a run that ended \<^verbatim>\<open>completed\<close>. \<open>db\<close> says whether the script
  records the interaction (\<^verbatim>\<open>ionetbot.js\<close> does, the other two do not); the
  \<^verbatim>\<open>withDb\<close> call is not awaited.\<close>

definition completed_branch ::
  "bool \<Rightarrow> env \<Rightarrow> bot_state \<Rightarrow> message \<Rightarrow> string
     \<Rightarrow> (js_error + unit) \<times> effect list \<times> bot_state" where
  "completed_branch db env st m tid =
     (case messages_list env of
        Inl e \<Rightarrow> (Inl e, [MessagesList tid], st)
      | Inr None \<Rightarrow> (Inr (), [MessagesList tid], st)
      | Inr (Some []) \<Rightarrow> (Inr (), [MessagesList tid], st)
      | Inr (Some (newest # _)) \<Rightarrow>
          (case first_text newest of
             Inl e \<Rightarrow> (Inl e, [MessagesList tid], st)
           | Inr v \<Rightarrow>
               (let response = substring v 0 1999;
                    said = [MessagesList tid,
                            ConsoleLog (''Response from OpenAI: '' @ response),
                            Reply response] in
                case reply_response env of
                  Some e \<Rightarrow> (Inl e, said, st)
                | None \<Rightarrow>
                    (Inr (),
                     said @
                       (if db then
                          snd (withDb (db_insert env) ''privateMessages''
                                 (PrivateMessage (channel_id m) (author_id m) (content m)
                                    response (now_record env)))
                        else []),
                     st))))"

text \<open>The body of the \<^verbatim>\<open>try\<close> block; \<open>None\<close> when the polling never ends.\<close>

definition try_body ::
  "bool \<Rightarrow> env \<Rightarrow> bot_state \<Rightarrow> message \<Rightarrow> string
     \<Rightarrow> ((js_error + unit) \<times> effect list \<times> bot_state) option" where
  "try_body db env st m tid =
     (case send_typing env of
        Some e \<Rightarrow> Some (Inl e, [SendTyping], st)
      | None \<Rightarrow>
     (case messages_create env of
        Some e \<Rightarrow> Some (Inl e, [SendTyping, MessagesCreate tid (content m)], st)
      | None \<Rightarrow>
     (let asked = [SendTyping, MessagesCreate tid (content m), RunsCreate tid] in
      case runs_create env of
        Inl e \<Rightarrow> Some (Inl e, asked, st)
      | Inr rid \<Rightarrow>
     (case statusCheckLoop tid rid (polls env) of
        None \<Rightarrow> None
      | Some (Inl e, polled, _) \<Rightarrow> Some (Inl e, asked @ polled, st)
      | Some (Inr status, polled, _) \<Rightarrow>
          if status = ''failed'' then
            (case failed_branch env st tid rid of
               (r, effs, st') \<Rightarrow> Some (r, asked @ polled @ effs, st'))
          else if status = ''completed'' then
            (case completed_branch db env st m tid of
               (r, effs, st') \<Rightarrow> Some (r, asked @ polled @ effs, st'))
          else Some (Inr (), asked @ polled, st)))))"

text \<open>
  The dispatch block: rate gate, thread lookup-or-create, then the \<^verbatim>\<open>try\<close> body with
  its \<^verbatim>\<open>catch\<close>, which logs and replies with the generic notice. The result is how the
  handler's promise settles: \<open>Inl\<close> is a rejection that nothing in the script handles.
\<close>

definition dispatch ::
  "bool \<Rightarrow> env \<Rightarrow> bot_state \<Rightarrow> message
     \<Rightarrow> ((js_error + unit) \<times> effect list \<times> bot_state) option" where
  "dispatch db env st m =
     (if rate_limited (now_gate env) st then
        (case reply_wait env of
           Some e \<Rightarrow> Some (Inl e, [Reply wait_notice], st)
         | None \<Rightarrow> Some (Inr (), [Reply wait_notice], st))
      else
        (case resolve_thread (threads_create env) st (channel_id m) of
           (Inl e, effs, st1) \<Rightarrow> Some (Inl e, effs, st1)
         | (Inr openAiThreadId, effs, st1) \<Rightarrow>
             (case try_body db env st1 m openAiThreadId of
                None \<Rightarrow> None
              | Some (Inr u, effs2, st2) \<Rightarrow> Some (Inr (), effs @ effs2, st2)
              | Some (Inl error, effs2, st2) \<Rightarrow>
                  Some (case reply_catch env of Some e \<Rightarrow> Inl e | None \<Rightarrow> Inr (),
                        effs @ effs2 @
                          [ConsoleError (''Error during message processing: '' @ error),
                           Reply generic_notice],
                        st2))))"

text \<open>The \<^verbatim>\<open>!createPrivateChannel\<close> branch: create the channel, register it, greet,
  confirm, record the event (not awaited) and schedule the deletion timer.\<close>

definition createPrivateChannel ::
  "create_env \<Rightarrow> bot_state \<Rightarrow> message \<Rightarrow> (js_error + unit) \<times> effect list \<times> bot_state" where
  "createPrivateChannel cenv st m =
     (let channelName = ''private-'' @ author_id m;
          failed = (\<lambda>error effs st'.
             (case reply_create_failed cenv of Some e \<Rightarrow> Inl e | None \<Rightarrow> Inr (),
              effs @ [ConsoleError (''Error creating private channel: '' @ error),
                      Reply ''Failed to create private channel.''],
              st')) in
      case channels_create cenv of
        Inl e \<Rightarrow> failed e [ChannelsCreate channelName] st
      | Inr cid \<Rightarrow>
     (let st1 = st\<lparr>channelsMap := (channelsMap st)(cid \<mapsto> \<lparr>ch_id = cid, ch_name = channelName\<rparr>)\<rparr>;
          greeted = [ChannelsCreate channelName,
                     ChannelSend cid ''Hello, I'm IO ASSISTANT. How can I help you?''] in
      case channel_send cenv of
        Some e \<Rightarrow> failed e greeted st1
      | None \<Rightarrow>
     (let told = greeted @
            [Reply (''Private channel <#'' @ cid @ ''> created. It will be deleted in 10 minutes.'')] in
      case reply_created cenv of
        Some e \<Rightarrow> failed e told st1
      | None \<Rightarrow>
          (Inr (),
           told @ snd (withDb (db_event cenv) ''events''
                         (ChannelCreation cid (author_id m) (now_event cenv)))
                @ [SetTimeout cid 600000],
           st1))))"

definition messageCreate ::
  "create_env \<Rightarrow> env \<Rightarrow> bot_state \<Rightarrow> message
     \<Rightarrow> ((js_error + unit) \<times> effect list \<times> bot_state) option" where
  "messageCreate cenv env st m =
     (if author_bot m \<or> content m = [] then Some (Inr (), [], st)
      else if startsWith (content m) ''!createPrivateChannel''
              \<and> channel_id m = COMMAND_CHANNEL_ID
        then Some (createPrivateChannel cenv st m)
      else if channel_type m = GuildText \<and> startsWith (channel_name m) ''private-''
        then dispatch True env st m
      else Some (Inr (), [], st))"

section \<open>The message handler of \<^verbatim>\<open>ionetbot_test_dm.js\<close>\<close>

definition TRIGGER_CHANNEL_ID :: snowflake where
  "TRIGGER_CHANNEL_ID = ''YOUR_CHANNEL_ID''"

definition session_started_notice :: string where
  "session_started_notice =
     ''You have started a DM session with the bot. You have 10 minutes to interact.''"

definition session_expired_notice :: string where
  "session_expired_notice =
     ''Your session has expired or was not started. Use !create to start a new session.''"

text \<open>\<^verbatim>\<open>dmSessions[discordId] = Date.now() + 600000\<close>.\<close>

definition startSession :: "snowflake \<Rightarrow> millis \<Rightarrow> bot_state \<Rightarrow> bot_state" where
  "startSession discordId now st =
     st\<lparr>dmSessions := (dmSessions st)(discordId \<mapsto> now + 600000)\<rparr>"

text \<open>The negation of \<^verbatim>\<open>!sessionEndTime || Date.now() > sessionEndTime\<close>, where
  \<^verbatim>\<open>sessionEndTime = dmSessions[message.author.id]\<close>; \<^verbatim>\<open>undefined\<close> and \<^verbatim>\<open>0\<close> are
  falsy.\<close>

definition isAdmitted :: "snowflake \<Rightarrow> millis \<Rightarrow> bot_state \<Rightarrow> bool" where
  "isAdmitted userId now st \<longleftrightarrow>
     (case dmSessions st userId of
        None \<Rightarrow> False
      | Some sessionEndTime \<Rightarrow> \<not> (sessionEndTime = 0 \<or> now > sessionEndTime))"

text \<open>The sends to the author are not awaited. The handler logs every message first:
  \<^verbatim>\<open>console.log("Message received: ", message.content)\<close> prints its two arguments with a
  space between them.\<close>

definition messageCreate_dm ::
  "env \<Rightarrow> bot_state \<Rightarrow> message \<Rightarrow> ((js_error + unit) \<times> effect list \<times> bot_state) option" where
  "messageCreate_dm env st m =
     (let received = ConsoleLog (''Message received:  '' @ content m) in
      if author_bot m \<or> content m = [] then Some (Inr (), [received], st)
      else if startsWith (content m) ''!create'' \<and> channel_id m = TRIGGER_CHANNEL_ID then
        Some (Inr (),
              [received, AuthorSend session_started_notice,
               ConsoleLog (''Session started for '' @ author_id m)],
              startSession (author_id m) (now_session env) st)
      else if channel_type m = DM then
        (if \<not> isAdmitted (author_id m) (now_session env) st then
           Some (Inr (),
                 [received, ConsoleLog ''Processing DM...'',
                  AuthorSend session_expired_notice,
                  ConsoleLog (''Session ended or not started for '' @ author_id m)],
                 st)
         else
           (case dispatch False env st m of
              None \<Rightarrow> None
            | Some (r, effs, st') \<Rightarrow>
                Some (r, received # ConsoleLog ''Processing DM...'' # effs, st')))
      else Some (Inr (), [received], st))"

section \<open>Closing a private channel: timer and button\<close>

text \<open>
  The deletion callback scheduled by \<^verbatim>\<open>setTimeout\<close> and the \<^verbatim>\<open>interactionCreate\<close>
  handler are asynchronous functions. Each runs without interruption from one
  \<^verbatim>\<open>await\<close> to the next, and at an \<^verbatim>\<open>await\<close> the other may run. Each is therefore a
  sequence of atomic steps with a program counter, and a schedule says whose step comes
  next. The platform's answers are fields of \<open>close_env\<close>.
\<close>

record interaction =
  isButton :: bool
  customId :: string
  i_channelId :: snowflake

record close_env =
  fetch_r :: "js_error + channel option"
  timer_delete_r :: "js_error option"
  db_deletion :: "js_error option"
  now_deleted :: millis
  click_delete_r :: "js_error option"

datatype timer_pc = TimerScheduled | TimerAwaitFetch | TimerAwaitDelete channel | TimerDone

datatype click_pc = ClickPending | ClickAwaitDelete channel | ClickDone

record close_sys =
  bot :: bot_state
  timer :: timer_pc
  click :: click_pc
  trace :: "effect list"

definition unregister :: "snowflake \<Rightarrow> bot_state \<Rightarrow> bot_state" where
  "unregister cid st = st\<lparr>channelsMap := (channelsMap st)(cid := None)\<rparr>"

text \<open>
  The timer callback for the channel \<open>cid\<close> (the \<^verbatim>\<open>channel.id\<close> its closure holds):
  the test \<^verbatim>\<open>channelsMap.has\<close> and the fetch call; then, when the fetch settles, the
  delete call; then, when the delete settles, the log line and the deletion record.
  The \<^verbatim>\<open>finally\<close> block unregisters the channel on every way out of the \<^verbatim>\<open>try\<close>.
\<close>

definition timer_step :: "close_env \<Rightarrow> snowflake \<Rightarrow> close_sys \<Rightarrow> close_sys" where
  "timer_step cenv cid sys =
     (case timer sys of
        TimerScheduled \<Rightarrow>
          if channelsMap (bot sys) cid \<noteq> None
          then sys\<lparr>timer := TimerAwaitFetch, trace := trace sys @ [ChannelsFetch cid]\<rparr>
          else sys\<lparr>timer := TimerDone\<rparr>
      | TimerAwaitFetch \<Rightarrow>
          (case fetch_r cenv of
             Inl e \<Rightarrow>
               sys\<lparr>timer := TimerDone,
                   trace := trace sys @
                     [ConsoleError (''Error during automatic channel deletion: '' @ e)],
                   bot := unregister cid (bot sys)\<rparr>
           | Inr None \<Rightarrow> sys\<lparr>timer := TimerDone, bot := unregister cid (bot sys)\<rparr>
           | Inr (Some fetchedChannel) \<Rightarrow>
               sys\<lparr>timer := TimerAwaitDelete fetchedChannel,
                   trace := trace sys @ [ChannelDelete (ch_id fetchedChannel)]\<rparr>)
      | TimerAwaitDelete fetchedChannel \<Rightarrow>
          (case timer_delete_r cenv of
             Some e \<Rightarrow>
               sys\<lparr>timer := TimerDone,
                   trace := trace sys @
                     [ConsoleError (''Error during automatic channel deletion: '' @ e)],
                   bot := unregister cid (bot sys)\<rparr>
           | None \<Rightarrow>
               sys\<lparr>timer := TimerDone,
                   trace := trace sys @
                     ConsoleLog (''Channel '' @ ch_name fetchedChannel
                                   @ '' has been automatically deleted.'')
                     # snd (withDb (db_deletion cenv) ''channelDeletions''
                              (ChannelDeletion (ch_id fetchedChannel) (now_deleted cenv))),
                   bot := unregister cid (bot sys)\<rparr>)
      | TimerDone \<Rightarrow> sys)"

text \<open>
  The \<^verbatim>\<open>interactionCreate\<close> handler: the filter, the registry lookup and the delete
  call; then, when the delete settles, the log line and the removal from the registry,
  or the error line alone.
\<close>

definition click_step :: "close_env \<Rightarrow> interaction \<Rightarrow> close_sys \<Rightarrow> close_sys" where
  "click_step cenv i sys =
     (case click sys of
        ClickPending \<Rightarrow>
          if \<not> isButton i \<or> customId i \<noteq> ''close_ticket'' then sys\<lparr>click := ClickDone\<rparr>
          else
            (case channelsMap (bot sys) (i_channelId i) of
               None \<Rightarrow> sys\<lparr>click := ClickDone\<rparr>
             | Some channel \<Rightarrow>
                 sys\<lparr>click := ClickAwaitDelete channel,
                     trace := trace sys @ [ChannelDelete (ch_id channel)]\<rparr>)
      | ClickAwaitDelete channel \<Rightarrow>
          (case click_delete_r cenv of
             Some e \<Rightarrow>
               sys\<lparr>click := ClickDone,
                   trace := trace sys @
                     [ConsoleError (''Error deleting channel by interaction: '' @ e)]\<rparr>
           | None \<Rightarrow>
               sys\<lparr>click := ClickDone,
                   trace := trace sys @
                     [ConsoleLog (''Channel '' @ ch_name channel
                                    @ '' has been deleted by user interaction.'')],
                   bot := unregister (i_channelId i) (bot sys)\<rparr>)
      | ClickDone \<Rightarrow> sys)"

datatype proc = TimerProc | ClickProc

fun run_close ::
  "close_env \<Rightarrow> snowflake \<Rightarrow> interaction \<Rightarrow> proc list \<Rightarrow> close_sys \<Rightarrow> close_sys" where
  "run_close cenv cid i [] sys = sys"
| "run_close cenv cid i (TimerProc # ps) sys = run_close cenv cid i ps (timer_step cenv cid sys)"
| "run_close cenv cid i (ClickProc # ps) sys = run_close cenv cid i ps (click_step cenv i sys)"

text \<open>Each handler run from its start to its end with nothing in between.\<close>

definition timer_callback :: "close_env \<Rightarrow> snowflake \<Rightarrow> close_sys \<Rightarrow> close_sys" where
  "timer_callback cenv cid sys = timer_step cenv cid (timer_step cenv cid (timer_step cenv cid sys))"

definition interactionCreate :: "close_env \<Rightarrow> interaction \<Rightarrow> close_sys \<Rightarrow> close_sys" where
  "interactionCreate cenv i sys = click_step cenv i (click_step cenv i sys)"

text \<open>The state right after \<^verbatim>\<open>!createPrivateChannel\<close> served: timer scheduled, button
  not pressed yet.\<close>

definition close_start :: "bot_state \<Rightarrow> close_sys" where
  "close_start st = \<lparr>bot = st, timer = TimerScheduled, click = ClickPending, trace = []\<rparr>"

text \<open>Platform delete calls issued, and deletion records stored, in a trace.\<close>

fun delete_calls :: "effect list \<Rightarrow> nat" where
  "delete_calls [] = 0"
| "delete_calls (ChannelDelete c # es) = Suc (delete_calls es)"
| "delete_calls (_ # es) = delete_calls es"

fun deletion_records :: "effect list \<Rightarrow> nat" where
  "deletion_records [] = 0"
| "deletion_records (Inserted coll (ChannelDeletion c t) # es) = Suc (deletion_records es)"
| "deletion_records (_ # es) = deletion_records es"

section \<open>Thread lookup-or-create under interleaving\<close>

text \<open>
  The lookup-or-create lines suspend at \<^verbatim>\<open>await openai.beta.threads.create()\<close>. A
  handler is at its start, waiting for the new thread, or past these lines with the id
  it will use (or the error that ended it). The backend answers the pending
  \<^verbatim>\<open>threads.create\<close> calls from a list, one entry per call in the order they settle.
\<close>

datatype resolve_pc = ResolveStart | ResolveAwaitCreate | ResolveDone "js_error + string"

record resolve_sys =
  rbot :: bot_state
  handlers :: "(snowflake \<times> resolve_pc) list"
  backend :: "(js_error + string) list"
  rtrace :: "effect list"

definition resolve_step :: "nat \<Rightarrow> resolve_sys \<Rightarrow> resolve_sys" where
  "resolve_step k sys =
     (if k \<ge> length (handlers sys) then sys
      else
        (case handlers sys ! k of
           (c, ResolveStart) \<Rightarrow>
             (case getOpenAiThreadId (rbot sys) c of
                None \<Rightarrow>
                  sys\<lparr>handlers := (handlers sys)[k := (c, ResolveAwaitCreate)],
                      rtrace := rtrace sys @ [ThreadsCreate]\<rparr>
              | Some openAiThreadId \<Rightarrow>
                  if openAiThreadId = [] then
                    sys\<lparr>handlers := (handlers sys)[k := (c, ResolveAwaitCreate)],
                        rtrace := rtrace sys @ [ThreadsCreate]\<rparr>
                  else sys\<lparr>handlers := (handlers sys)[k := (c, ResolveDone (Inr openAiThreadId))]\<rparr>)
         | (c, ResolveAwaitCreate) \<Rightarrow>
             (case backend sys of
                [] \<Rightarrow> sys
              | Inl e # rest \<Rightarrow>
                  sys\<lparr>handlers := (handlers sys)[k := (c, ResolveDone (Inl e))], backend := rest\<rparr>
              | Inr t # rest \<Rightarrow>
                  sys\<lparr>handlers := (handlers sys)[k := (c, ResolveDone (Inr t))],
                      backend := rest,
                      rbot := addThreadToMap c t (rbot sys)\<rparr>)
         | (c, ResolveDone r) \<Rightarrow> sys))"

fun run_resolve :: "nat list \<Rightarrow> resolve_sys \<Rightarrow> resolve_sys" where
  "run_resolve [] sys = sys"
| "run_resolve (k # ks) sys = run_resolve ks (resolve_step k sys)"

text \<open>Calls of the lookup-or-create lines one after the other, none overlapping: each
  call names its conversation and what the backend would answer a create.\<close>

fun resolve_seq ::
  "bot_state \<Rightarrow> (snowflake \<times> (js_error + string)) list
     \<Rightarrow> ((js_error + string) \<times> effect list) list \<times> bot_state" where
  "resolve_seq st [] = ([], st)"
| "resolve_seq st ((c, created) # calls) =
     (case resolve_thread created st c of
        (r, effs, st') \<Rightarrow>
          (case resolve_seq st' calls of (rs, st'') \<Rightarrow> ((r, effs) # rs, st'')))"

section \<open>The rate gate over a process lifetime\<close>


section \<open>Reading traces\<close>

text \<open>The calls made on the platform and on the backend: a trace without its console
  lines and without the documents stored in the database.\<close>

fun outbound :: "effect list \<Rightarrow> effect list" where
  "outbound [] = []"
| "outbound (ConsoleLog s # es) = outbound es"
| "outbound (ConsoleError s # es) = outbound es"
| "outbound (Inserted coll d # es) = outbound es"
| "outbound (e # es) = e # outbound es"

text \<open>The delete calls each handler has issued when it stands at a given point.\<close>

fun timer_deletes :: "timer_pc \<Rightarrow> nat" where
  "timer_deletes TimerScheduled = 0"
| "timer_deletes TimerAwaitFetch = 0"
| "timer_deletes (TimerAwaitDelete fetchedChannel) = 1"
| "timer_deletes TimerDone = 1"

fun click_deletes :: "click_pc \<Rightarrow> nat" where
  "click_deletes ClickPending = 0"
| "click_deletes (ClickAwaitDelete channel) = 1"
| "click_deletes ClickDone = 1"

text \<open>What a handler run shows to the outside: how it settled, the calls it made and
  the state it left.\<close>

definition observe ::
  "((js_error + unit) \<times> effect list \<times> bot_state) option
     \<Rightarrow> ((js_error + unit) \<times> effect list \<times> bot_state) option" where
  "observe res = map_option (\<lambda>(r, effs, s). (r, outbound effs, s)) res"

section \<open>Sample inputs\<close>

text \<open>A message in a private channel, a state with nothing registered, and answers of
  the collaborators in which every call succeeds and the run completes after two
  polls that found it unfinished.\<close>

definition sample_message :: message where
  "sample_message =
     \<lparr>author_bot = False, author_id = ''7001'', content = ''hello'',
      channel_id = ''9001'', channel_type = GuildText, channel_name = ''private-7001''\<rparr>"

definition sample_state :: bot_state where
  "sample_state =
     \<lparr>threadMap = Map.empty, channelsMap = Map.empty, dmSessions = Map.empty,
      nextAvailableTime = 1000000\<rparr>"

definition sample_env :: env where
  "sample_env =
     \<lparr>now_session = 1000100, now_gate = 1000100, reply_wait = None,
      threads_create = Inr ''thread_1'', send_typing = None, messages_create = None,
      runs_create = Inr ''run_1'',
      polls = [Inr ''queued'', Inr ''in_progress'', Inr ''completed''],
      reply_failed = None, details = Inr None, now_penalty = 1005000,
      messages_list = Inr (Some [[TextPart ''Hi there'']]),
      reply_response = None, db_insert = None, now_record = 1003000,
      reply_catch = None\<rparr>"

definition sample_create_env :: create_env where
  "sample_create_env =
     \<lparr>channels_create = Inr ''9001'', channel_send = None, reply_created = None,
      db_event = None, now_event = 990000, reply_create_failed = None\<rparr>"

text \<open>For the direct-message script: the session-start command in the trigger channel,
  and a direct message from the same user.\<close>

definition sample_trigger :: message where
  "sample_trigger =
     \<lparr>author_bot = False, author_id = ''7001'', content = ''!create'',
      channel_id = ''YOUR_CHANNEL_ID'', channel_type = GuildText,
      channel_name = ''bot-commands''\<rparr>"

definition sample_dm :: message where
  "sample_dm =
     \<lparr>author_bot = False, author_id = ''7001'', content = ''hello'',
      channel_id = ''5001'', channel_type = DM, channel_name = []\<rparr>"

text \<open>For the close paths: the private channel of the sample message registered, a
  press of its close button, and a platform on which the fetch and the button's delete
  succeed while the timer's delete is refused.\<close>

definition sample_channel :: channel where
  "sample_channel = \<lparr>ch_id = ''9001'', ch_name = ''private-7001''\<rparr>"

definition sample_registered :: bot_state where
  "sample_registered = sample_state\<lparr>channelsMap := [''9001'' \<mapsto> sample_channel]\<rparr>"

definition sample_click :: interaction where
  "sample_click = \<lparr>isButton = True, customId = ''close_ticket'', i_channelId = ''9001''\<rparr>"

definition sample_close_env :: close_env where
  "sample_close_env =
     \<lparr>fetch_r = Inr (Some sample_channel), timer_delete_r = Some ''Unknown Channel'',
      db_deletion = None, now_deleted = 1600000, click_delete_r = None\<rparr>"

text \<open>For the thread registry: three handlers for the conversation of the sample
  message, none started, and a backend that hands out two thread ids.\<close>

definition sample_resolve_sys :: resolve_sys where
  "sample_resolve_sys =
     \<lparr>rbot = sample_state,
      handlers = [(''9001'', ResolveStart), (''9001'', ResolveStart), (''9001'', ResolveStart)],
      backend = [Inr ''thread_1'', Inr ''thread_2''],
      rtrace = []\<rparr>"

section \<open>Properties of the run driver\<close>

lemma sleeps_append: "sleeps (xs @ ys) = sleeps xs @ sleeps ys"
  by (induction xs rule: sleeps.induct) simp_all

lemma sleeps_waiting: "sleeps (waiting tid rid n) = replicate n 1000"
  by (induction n) simp_all

lemma statusCheckLoop_terminal:
  assumes "\<forall>s \<in> set pre. s \<notin> set terminalStates" and "t \<in> set terminalStates"
  shows "statusCheckLoop tid rid (map Inr pre @ Inr t # rest)
           = Some (Inr t, waiting tid rid (length pre) @ [RunsRetrieve tid rid], rest)"
  using assms by (induction pre) simp_all

lemma statusCheckLoop_throws:
  assumes "\<forall>s \<in> set pre. s \<notin> set terminalStates"
  shows "statusCheckLoop tid rid (map Inr pre @ Inl e # rest)
           = Some (Inl e,
                   waiting tid rid (length pre)
                     @ [RunsRetrieve tid rid,
                        ConsoleError (''Error retrieving the run status: '' @ e)],
                   rest)"
  using assms by (induction pre) simp_all

lemma failed_terminal: "''failed'' \<in> set terminalStates"
  by (simp add: terminalStates_def)

lemma dispatch_failed_penalty:
  assumes gate: "\<not> rate_limited (now_gate env) st"
    and thr: "resolve_thread (threads_create env) st (channel_id m) = (Inr tid, effs0, st1)"
    and ok: "send_typing env = None" "messages_create env = None" "runs_create env = Inr rid"
    and polls: "polls env = map Inr pre @ Inr ''failed'' # rest"
    and pre: "\<forall>s \<in> set pre. s \<notin> set terminalStates"
    and reply: "reply_failed env = None"
    and det: "details env = Inr (Some ''rate_limit_exceeded'')"
  shows "dispatch db env st m =
           Some (Inr (),
                 effs0 @ [SendTyping, MessagesCreate tid (content m), RunsCreate tid]
                   @ (waiting tid rid (length pre) @ [RunsRetrieve tid rid])
                   @ [ConsoleLog (''Run failed for thread ID '' @ tid @ ''.''),
                      Reply failed_notice, RunsRetrieve tid rid],
                 penalize (now_penalty env) st1)"
  using gate thr ok reply det
  by (simp add: dispatch_def try_body_def failed_branch_def polls
      statusCheckLoop_terminal[OF pre failed_terminal])

lemma dispatch_poll_throws:
  assumes gate: "\<not> rate_limited (now_gate env) st"
    and thr: "resolve_thread (threads_create env) st (channel_id m) = (Inr tid, effs0, st1)"
    and ok: "send_typing env = None" "messages_create env = None" "runs_create env = Inr rid"
    and polls: "polls env = map Inr pre @ Inl e # rest"
    and pre: "\<forall>s \<in> set pre. s \<notin> set terminalStates"
  shows "dispatch db env st m =
           Some (case reply_catch env of Some e' \<Rightarrow> Inl e' | None \<Rightarrow> Inr (),
                 effs0 @ [SendTyping, MessagesCreate tid (content m), RunsCreate tid]
                   @ (waiting tid rid (length pre)
                       @ [RunsRetrieve tid rid,
                          ConsoleError (''Error retrieving the run status: '' @ e)])
                   @ [ConsoleError (''Error during message processing: '' @ e),
                      Reply generic_notice],
                 st1)"
  using gate thr ok
  by (simp add: dispatch_def try_body_def polls statusCheckLoop_throws[OF pre])

text \<open>
  Claim C3. The run driver polls the run status; on a non-terminal status it suspends
  for exactly 1000 ms and polls again, and it returns the first terminal status it sees
  (cancelled, failed, completed or expired). On the answers queued, in_progress,
  completed it returns completed after two suspensions; on queued, failed it returns
  failed after one suspension, and when the failure detail then carries the code
  rate_limit_exceeded the dispatch sets \<^verbatim>\<open>nextAvailableTime\<close> to the clock reading taken
  at the end of handling that run plus 20000 ms.
\<close>

theorem run_driver_terminal_coverage:
  "((\<forall>s \<in> set pre. s \<notin> set terminalStates) \<and> t \<in> set terminalStates \<longrightarrow>
      statusCheckLoop tid rid (map Inr pre @ Inr t # rest)
        = Some (Inr t, waiting tid rid (length pre) @ [RunsRetrieve tid rid], rest)
      \<and> sleeps (waiting tid rid (length pre) @ [RunsRetrieve tid rid])
        = replicate (length pre) 1000)
   \<and> statusCheckLoop tid rid [Inr ''queued'', Inr ''in_progress'', Inr ''completed'']
       = Some (Inr ''completed'',
               [RunsRetrieve tid rid, Sleep 1000, RunsRetrieve tid rid, Sleep 1000,
                RunsRetrieve tid rid], [])
   \<and> statusCheckLoop tid rid [Inr ''queued'', Inr ''failed'']
       = Some (Inr ''failed'', [RunsRetrieve tid rid, Sleep 1000, RunsRetrieve tid rid], [])
   \<and> (\<not> rate_limited (now_gate env) st
       \<and> resolve_thread (threads_create env) st (channel_id m) = (Inr tid, effs0, st1)
       \<and> send_typing env = None \<and> messages_create env = None \<and> runs_create env = Inr rid
       \<and> polls env = [Inr ''queued'', Inr ''failed'']
       \<and> reply_failed env = None
       \<and> details env = Inr (Some ''rate_limit_exceeded'') \<longrightarrow>
      dispatch db env st m =
        Some (Inr (),
              effs0 @ [SendTyping, MessagesCreate tid (content m), RunsCreate tid,
                       RunsRetrieve tid rid, Sleep 1000, RunsRetrieve tid rid,
                       ConsoleLog (''Run failed for thread ID '' @ tid @ ''.''),
                       Reply failed_notice, RunsRetrieve tid rid],
              st1\<lparr>nextAvailableTime := now_penalty env + 20000\<rparr>))"
proof -
  have general: "(\<forall>s \<in> set pre. s \<notin> set terminalStates) \<and> t \<in> set terminalStates \<longrightarrow>
      statusCheckLoop tid rid (map Inr pre @ Inr t # rest)
        = Some (Inr t, waiting tid rid (length pre) @ [RunsRetrieve tid rid], rest)
      \<and> sleeps (waiting tid rid (length pre) @ [RunsRetrieve tid rid])
        = replicate (length pre) 1000"
    by (simp add: statusCheckLoop_terminal sleeps_append sleeps_waiting)
  have completed: "statusCheckLoop tid rid [Inr ''queued'', Inr ''in_progress'', Inr ''completed'']
       = Some (Inr ''completed'',
               [RunsRetrieve tid rid, Sleep 1000, RunsRetrieve tid rid, Sleep 1000,
                RunsRetrieve tid rid], [])"
    by (simp add: terminalStates_def)
  have failed: "statusCheckLoop tid rid [Inr ''queued'', Inr ''failed'']
       = Some (Inr ''failed'', [RunsRetrieve tid rid, Sleep 1000, RunsRetrieve tid rid], [])"
    by (simp add: terminalStates_def)
  have penalty: "\<not> rate_limited (now_gate env) st
       \<and> resolve_thread (threads_create env) st (channel_id m) = (Inr tid, effs0, st1)
       \<and> send_typing env = None \<and> messages_create env = None \<and> runs_create env = Inr rid
       \<and> polls env = [Inr ''queued'', Inr ''failed'']
       \<and> reply_failed env = None
       \<and> details env = Inr (Some ''rate_limit_exceeded'') \<longrightarrow>
      dispatch db env st m =
        Some (Inr (),
              effs0 @ [SendTyping, MessagesCreate tid (content m), RunsCreate tid,
                       RunsRetrieve tid rid, Sleep 1000, RunsRetrieve tid rid,
                       ConsoleLog (''Run failed for thread ID '' @ tid @ ''.''),
                       Reply failed_notice, RunsRetrieve tid rid],
              st1\<lparr>nextAvailableTime := now_penalty env + 20000\<rparr>)"
  proof
    assume h: "\<not> rate_limited (now_gate env) st
       \<and> resolve_thread (threads_create env) st (channel_id m) = (Inr tid, effs0, st1)
       \<and> send_typing env = None \<and> messages_create env = None \<and> runs_create env = Inr rid
       \<and> polls env = [Inr ''queued'', Inr ''failed'']
       \<and> reply_failed env = None
       \<and> details env = Inr (Some ''rate_limit_exceeded'')"
    have pre: "\<forall>s \<in> set [''queued'']. s \<notin> set terminalStates"
      by (simp add: terminalStates_def)
    have p: "polls env = map Inr [''queued''] @ Inr ''failed'' # []"
      using h by simp
    from h dispatch_failed_penalty[OF _ _ _ _ _ p pre, of st m tid effs0 st1 rid db]
    show "dispatch db env st m =
        Some (Inr (),
              effs0 @ [SendTyping, MessagesCreate tid (content m), RunsCreate tid,
                       RunsRetrieve tid rid, Sleep 1000, RunsRetrieve tid rid,
                       ConsoleLog (''Run failed for thread ID '' @ tid @ ''.''),
                       Reply failed_notice, RunsRetrieve tid rid],
              st1\<lparr>nextAvailableTime := now_penalty env + 20000\<rparr>)"
      by (simp add: penalize_def)
  qed
  from general completed failed penalty show ?thesis by blast
qed

text \<open>The theorem at concrete answers: a run that expires after two polls, and a
  failed run with the rate-limit code handled at clock reading 1005000.\<close>

theorem run_driver_terminal_coverage_witness:
  "''queued'' \<notin> set terminalStates \<and> ''in_progress'' \<notin> set terminalStates
   \<and> ''expired'' \<in> set terminalStates
   \<and> statusCheckLoop ''thread_1'' ''run_1''
        [Inr ''queued'', Inr ''in_progress'', Inr ''expired'', Inr ''completed'']
       = Some (Inr ''expired'',
               [RunsRetrieve ''thread_1'' ''run_1'', Sleep 1000,
                RunsRetrieve ''thread_1'' ''run_1'', Sleep 1000,
                RunsRetrieve ''thread_1'' ''run_1''], [Inr ''completed''])
   \<and> \<not> rate_limited (now_gate sample_env) sample_state
   \<and> dispatch True
        (sample_env\<lparr>polls := [Inr ''queued'', Inr ''failed''],
                    details := Inr (Some ''rate_limit_exceeded'')\<rparr>)
        sample_state sample_message
       = Some (Inr (),
               [ThreadsCreate, SendTyping, MessagesCreate ''thread_1'' ''hello'',
                RunsCreate ''thread_1'',
                RunsRetrieve ''thread_1'' ''run_1'', Sleep 1000,
                RunsRetrieve ''thread_1'' ''run_1'',
                ConsoleLog ''Run failed for thread ID thread_1.'',
                Reply failed_notice, RunsRetrieve ''thread_1'' ''run_1''],
               sample_state\<lparr>threadMap := [''9001'' \<mapsto> ''thread_1''],
                            nextAvailableTime := 1025000\<rparr>)"
proof -
  have pre: "\<forall>s \<in> set [''queued'', ''in_progress'']. s \<notin> set terminalStates"
    and t: "''expired'' \<in> set terminalStates"
    by (simp_all add: terminalStates_def)
  have gate: "\<not> rate_limited (now_gate sample_env) sample_state"
    by (simp add: rate_limited_def sample_env_def sample_state_def)
  have thr: "resolve_thread (threads_create sample_env) sample_state (channel_id sample_message)
      = (Inr ''thread_1'', [ThreadsCreate], sample_state\<lparr>threadMap := [''9001'' \<mapsto> ''thread_1'']\<rparr>)"
    by (simp add: resolve_thread_def getOpenAiThreadId_def addThreadToMap_def
        sample_env_def sample_state_def sample_message_def)
  note inst = run_driver_terminal_coverage
    [where pre = "[''queued'', ''in_progress'']" and t = "''expired''"
       and tid = "''thread_1''" and rid = "''run_1''" and rest = "[Inr ''completed'']"
       and env = "sample_env\<lparr>polls := [Inr ''queued'', Inr ''failed''],
                              details := Inr (Some ''rate_limit_exceeded'')\<rparr>"
       and st = sample_state and m = sample_message and ?effs0.0 = "[ThreadsCreate]"
       and ?st1.0 = "sample_state\<lparr>threadMap := [''9001'' \<mapsto> ''thread_1'']\<rparr>"
       and db = True]
  have loop: "statusCheckLoop ''thread_1'' ''run_1''
        [Inr ''queued'', Inr ''in_progress'', Inr ''expired'', Inr ''completed'']
       = Some (Inr ''expired'',
               [RunsRetrieve ''thread_1'' ''run_1'', Sleep 1000,
                RunsRetrieve ''thread_1'' ''run_1'', Sleep 1000,
                RunsRetrieve ''thread_1'' ''run_1''], [Inr ''completed''])"
    using inst pre t by (simp add: numeral_2_eq_2)
  have disp: "dispatch True
        (sample_env\<lparr>polls := [Inr ''queued'', Inr ''failed''],
                    details := Inr (Some ''rate_limit_exceeded'')\<rparr>)
        sample_state sample_message
       = Some (Inr (),
               [ThreadsCreate, SendTyping, MessagesCreate ''thread_1'' ''hello'',
                RunsCreate ''thread_1'',
                RunsRetrieve ''thread_1'' ''run_1'', Sleep 1000,
                RunsRetrieve ''thread_1'' ''run_1'',
                ConsoleLog ''Run failed for thread ID thread_1.'',
                Reply failed_notice, RunsRetrieve ''thread_1'' ''run_1''],
               sample_state\<lparr>threadMap := [''9001'' \<mapsto> ''thread_1''],
                            nextAvailableTime := 1025000\<rparr>)"
    using inst gate thr
    by (simp add: sample_env_def sample_message_def)
  from pre t loop gate disp show ?thesis by simp
qed

section \<open>Properties of the dispatch\<close>

lemma outbound_append: "outbound (xs @ ys) = outbound xs @ outbound ys"
  by (induction xs rule: outbound.induct) simp_all

lemma outbound_withDb: "outbound (snd (withDb outcome coll d)) = []"
  by (simp add: withDb_def split: option.splits)

lemma withDb_resolves: "fst (withDb outcome coll d) = Inr ()"
  by (simp add: withDb_def split: option.splits)

lemma completed_branch_db:
  "(case completed_branch db (env\<lparr>db_insert := x\<rparr>) st m tid of (r, effs, s) \<Rightarrow> (r, outbound effs, s))
     = (case completed_branch False env st m tid of (r, effs, s) \<Rightarrow> (r, outbound effs, s))"
  by (simp add: completed_branch_def Let_def outbound_withDb outbound_append
      split: sum.splits option.splits list.splits)

lemma failed_branch_db:
  "failed_branch (env\<lparr>db_insert := x\<rparr>) st tid rid = failed_branch env st tid rid"
  by (simp add: failed_branch_def Let_def split: option.splits sum.splits)

lemma try_body_db:
  "observe (try_body db (env\<lparr>db_insert := x\<rparr>) st m tid) = observe (try_body False env st m tid)"
proof -
  obtain r e s where A: "completed_branch db (env\<lparr>db_insert := x\<rparr>) st m tid = (r, e, s)"
    by (cases "completed_branch db (env\<lparr>db_insert := x\<rparr>) st m tid") auto
  obtain r' e' s' where B: "completed_branch False env st m tid = (r', e', s')"
    by (cases "completed_branch False env st m tid") auto
  have C: "r = r' \<and> outbound e = outbound e' \<and> s = s'"
    using completed_branch_db[where db = db and env = env and x = x and st = st and m = m and tid = tid]
    by (simp add: A B)
  show ?thesis
    by (simp add: try_body_def observe_def Let_def failed_branch_db outbound_append A B C
        split: sum.splits option.splits prod.splits)
qed

lemma resolve_thread_outbound:
  "resolve_thread created st c = (r, effs, st1) \<Longrightarrow> outbound effs = effs"
  by (auto simp: resolve_thread_def split: option.splits sum.splits if_splits)

lemma dispatch_db:
  "observe (dispatch db (env\<lparr>db_insert := x\<rparr>) st m) = observe (dispatch False env st m)"
proof (cases "rate_limited (now_gate env) st")
  case True
  then show ?thesis
    by (simp add: dispatch_def observe_def split: option.splits)
next
  case False
  obtain r0 e0 st1 where R: "resolve_thread (threads_create env) st (channel_id m) = (r0, e0, st1)"
    by (cases "resolve_thread (threads_create env) st (channel_id m)") auto
  show ?thesis
  proof (cases r0)
    case (Inl err)
    with False R show ?thesis by (simp add: dispatch_def observe_def)
  next
    case (Inr tid)
    have T: "observe (try_body db (env\<lparr>db_insert := x\<rparr>) st1 m tid)
               = observe (try_body False env st1 m tid)"
      by (rule try_body_db)
    show ?thesis
    proof (cases "try_body False env st1 m tid")
      case None
      with T have "try_body db (env\<lparr>db_insert := x\<rparr>) st1 m tid = None"
        by (simp add: observe_def)
      with None False R Inr show ?thesis by (simp add: dispatch_def observe_def)
    next
      case (Some res)
      obtain r e s where res: "res = (r, e, s)" by (cases res) auto
      from T Some res obtain e' where
        S': "try_body db (env\<lparr>db_insert := x\<rparr>) st1 m tid = Some (r, e', s)"
        and oe: "outbound e' = outbound e"
        by (auto simp: observe_def)
      from False R Inr Some res S' oe show ?thesis
        by (cases r) (simp_all add: dispatch_def observe_def outbound_append)
    qed
  qed
qed


text \<open>
  Claim C7 says that when retrieving the run status fails the dispatch replies with a
  generic failure notice instead of crashing the process. The \<^verbatim>\<open>catch\<close> block awaits
  \<^verbatim>\<open>message.reply\<close> with nothing around it, so when that notice cannot be delivered
  either, the handler's promise rejects with the reply's error and nothing in the script
  handles it.
\<close>

theorem status_retrieval_notice_undeliverable_counterexample:
  "dispatch True
     (sample_env\<lparr>polls := [Inl ''ECONNRESET''], reply_catch := Some ''Unknown Channel''\<rparr>)
     sample_state sample_message
     = Some (Inl ''Unknown Channel'',
             [ThreadsCreate, SendTyping, MessagesCreate ''thread_1'' ''hello'',
              RunsCreate ''thread_1'', RunsRetrieve ''thread_1'' ''run_1'',
              ConsoleError ''Error retrieving the run status: ECONNRESET'',
              ConsoleError ''Error during message processing: ECONNRESET'',
              Reply generic_notice],
             sample_state\<lparr>threadMap := [''9001'' \<mapsto> ''thread_1'']\<rparr>)"
  by (simp add: dispatch_def try_body_def Let_def resolve_thread_def getOpenAiThreadId_def
      addThreadToMap_def rate_limited_def sample_env_def sample_state_def sample_message_def)

text \<open>
  Claim C7, as amended. When retrieving the run status throws, the run driver logs the
  error and rethrows it at once: it returns with that error after the polls made so far
  and makes no further poll, so it does not loop on a transport error. The dispatch
  catches the error, logs it and sends the generic failure notice; when that notice is
  delivered the handler settles normally, and when sending it fails the handler's
  promise rejects with the error of the reply.
\<close>

theorem status_retrieval_error_propagates:
  "((\<forall>s \<in> set pre. s \<notin> set terminalStates) \<longrightarrow>
      statusCheckLoop tid rid (map Inr pre @ Inl e # rest)
        = Some (Inl e,
                waiting tid rid (length pre)
                  @ [RunsRetrieve tid rid,
                     ConsoleError (''Error retrieving the run status: '' @ e)],
                rest))
   \<and> ((\<forall>s \<in> set pre. s \<notin> set terminalStates)
       \<and> \<not> rate_limited (now_gate env) st
       \<and> resolve_thread (threads_create env) st (channel_id m) = (Inr tid, effs0, st1)
       \<and> send_typing env = None \<and> messages_create env = None \<and> runs_create env = Inr rid
       \<and> polls env = map Inr pre @ Inl e # rest
       \<and> reply_catch env = None \<longrightarrow>
      dispatch db env st m =
        Some (Inr (),
              effs0 @ [SendTyping, MessagesCreate tid (content m), RunsCreate tid]
                @ (waiting tid rid (length pre)
                    @ [RunsRetrieve tid rid,
                       ConsoleError (''Error retrieving the run status: '' @ e)])
                @ [ConsoleError (''Error during message processing: '' @ e),
                   Reply generic_notice],
              st1))
   \<and> ((\<forall>s \<in> set pre. s \<notin> set terminalStates)
       \<and> \<not> rate_limited (now_gate env) st
       \<and> resolve_thread (threads_create env) st (channel_id m) = (Inr tid, effs0, st1)
       \<and> send_typing env = None \<and> messages_create env = None \<and> runs_create env = Inr rid
       \<and> polls env = map Inr pre @ Inl e # rest
       \<and> reply_catch env = Some e' \<longrightarrow>
      dispatch db env st m =
        Some (Inl e',
              effs0 @ [SendTyping, MessagesCreate tid (content m), RunsCreate tid]
                @ (waiting tid rid (length pre)
                    @ [RunsRetrieve tid rid,
                       ConsoleError (''Error retrieving the run status: '' @ e)])
                @ [ConsoleError (''Error during message processing: '' @ e),
                   Reply generic_notice],
              st1))"
  using statusCheckLoop_throws[of pre tid rid e rest]
    dispatch_poll_throws[of env st m tid effs0 st1 rid pre e rest db]
  by auto

text \<open>
  The amended claim at a run whose second status retrieve fails with a connection reset,
  the notice being delivered.
\<close>

theorem status_retrieval_error_propagates_witness:
  "''queued'' \<notin> set terminalStates
   \<and> reply_catch (sample_env\<lparr>polls := [Inr ''queued'', Inl ''ECONNRESET'', Inr ''completed'']\<rparr>)
       = None
   \<and> statusCheckLoop ''thread_1'' ''run_1'' [Inr ''queued'', Inl ''ECONNRESET'', Inr ''completed'']
       = Some (Inl ''ECONNRESET'',
               [RunsRetrieve ''thread_1'' ''run_1'', Sleep 1000,
                RunsRetrieve ''thread_1'' ''run_1'',
                ConsoleError ''Error retrieving the run status: ECONNRESET''],
               [Inr ''completed''])
   \<and> dispatch True
        (sample_env\<lparr>polls := [Inr ''queued'', Inl ''ECONNRESET'', Inr ''completed'']\<rparr>)
        sample_state sample_message
       = Some (Inr (),
               [ThreadsCreate, SendTyping, MessagesCreate ''thread_1'' ''hello'',
                RunsCreate ''thread_1'',
                RunsRetrieve ''thread_1'' ''run_1'', Sleep 1000,
                RunsRetrieve ''thread_1'' ''run_1'',
                ConsoleError ''Error retrieving the run status: ECONNRESET'',
                ConsoleError ''Error during message processing: ECONNRESET'',
                Reply generic_notice],
               sample_state\<lparr>threadMap := [''9001'' \<mapsto> ''thread_1'']\<rparr>)"
proof -
  have pre: "''queued'' \<notin> set terminalStates"
    by (simp add: terminalStates_def)
  have gate: "\<not> rate_limited (now_gate sample_env) sample_state"
    by (simp add: rate_limited_def sample_env_def sample_state_def)
  have notice: "reply_catch (sample_env\<lparr>polls := [Inr ''queued'', Inl ''ECONNRESET'', Inr ''completed'']\<rparr>)
       = None"
    by (simp add: sample_env_def)
  have thr: "resolve_thread (threads_create sample_env) sample_state (channel_id sample_message)
      = (Inr ''thread_1'', [ThreadsCreate], sample_state\<lparr>threadMap := [''9001'' \<mapsto> ''thread_1'']\<rparr>)"
    by (simp add: resolve_thread_def getOpenAiThreadId_def addThreadToMap_def
        sample_env_def sample_state_def sample_message_def)
  note inst = status_retrieval_error_propagates
    [where pre = "[''queued'']" and e = "''ECONNRESET''"
       and tid = "''thread_1''" and rid = "''run_1''" and rest = "[Inr ''completed'']"
       and env = "sample_env\<lparr>polls := [Inr ''queued'', Inl ''ECONNRESET'', Inr ''completed'']\<rparr>"
       and st = sample_state and m = sample_message and ?effs0.0 = "[ThreadsCreate]"
       and ?st1.0 = "sample_state\<lparr>threadMap := [''9001'' \<mapsto> ''thread_1'']\<rparr>"
       and db = True]
  have loop: "statusCheckLoop ''thread_1'' ''run_1'' [Inr ''queued'', Inl ''ECONNRESET'', Inr ''completed'']
       = Some (Inl ''ECONNRESET'',
               [RunsRetrieve ''thread_1'' ''run_1'', Sleep 1000,
                RunsRetrieve ''thread_1'' ''run_1'',
                ConsoleError ''Error retrieving the run status: ECONNRESET''],
               [Inr ''completed''])"
    using inst pre by simp
  have disp: "dispatch True
        (sample_env\<lparr>polls := [Inr ''queued'', Inl ''ECONNRESET'', Inr ''completed'']\<rparr>)
        sample_state sample_message
       = Some (Inr (),
               [ThreadsCreate, SendTyping, MessagesCreate ''thread_1'' ''hello'',
                RunsCreate ''thread_1'',
                RunsRetrieve ''thread_1'' ''run_1'', Sleep 1000,
                RunsRetrieve ''thread_1'' ''run_1'',
                ConsoleError ''Error retrieving the run status: ECONNRESET'',
                ConsoleError ''Error during message processing: ECONNRESET'',
                Reply generic_notice],
               sample_state\<lparr>threadMap := [''9001'' \<mapsto> ''thread_1'']\<rparr>)"
    using inst pre gate thr notice
    by (simp add: sample_env_def sample_message_def)
  from pre notice loop disp show ?thesis by simp
qed

lemma substring_from_start: "substring v 0 n = take n v"
  by (simp add: substring_def)

lemma completed_branch_reply:
  assumes "messages_list env = Inr (Some (newest # older))" and "first_text newest = Inr v"
  shows "completed_branch db env st m tid =
           (case reply_response env of Some e \<Rightarrow> Inl e | None \<Rightarrow> Inr (),
            [MessagesList tid, ConsoleLog (''Response from OpenAI: '' @ take 1999 v),
             Reply (take 1999 v)]
              @ (if db \<and> reply_response env = None
                 then snd (withDb (db_insert env) ''privateMessages''
                            (PrivateMessage (channel_id m) (author_id m) (content m)
                               (take 1999 v) (now_record env)))
                 else []),
            st)"
  using assms
  by (simp add: completed_branch_def substring_from_start Let_def split: option.splits)

lemma completed_terminal: "''completed'' \<in> set terminalStates"
  by (simp add: terminalStates_def)

lemma dispatch_completed_reply:
  assumes gate: "\<not> rate_limited (now_gate env) st"
    and thr: "resolve_thread (threads_create env) st (channel_id m) = (Inr tid, effs0, st1)"
    and ok: "send_typing env = None" "messages_create env = None" "runs_create env = Inr rid"
    and polls: "polls env = map Inr pre @ Inr ''completed'' # rest"
    and pre: "\<forall>s \<in> set pre. s \<notin> set terminalStates"
    and listed: "messages_list env = Inr (Some (newest # older))"
    and extracted: "first_text newest = Inr v"
  shows "dispatch db env st m =
           Some (case reply_response env of
                   None \<Rightarrow> Inr ()
                 | Some e \<Rightarrow> (case reply_catch env of None \<Rightarrow> Inr () | Some e' \<Rightarrow> Inl e'),
                 effs0 @ [SendTyping, MessagesCreate tid (content m), RunsCreate tid]
                   @ (waiting tid rid (length pre) @ [RunsRetrieve tid rid])
                   @ [MessagesList tid,
                      ConsoleLog (''Response from OpenAI: '' @ take 1999 v),
                      Reply (take 1999 v)]
                   @ (case reply_response env of
                        None \<Rightarrow>
                          if db then snd (withDb (db_insert env) ''privateMessages''
                                           (PrivateMessage (channel_id m) (author_id m)
                                              (content m) (take 1999 v) (now_record env)))
                          else []
                      | Some e \<Rightarrow>
                          [ConsoleError (''Error during message processing: '' @ e),
                           Reply generic_notice]),
                 st1)"
  using gate thr ok
  by (simp add: dispatch_def try_body_def polls
      statusCheckLoop_terminal[OF pre completed_terminal]
      completed_branch_reply[OF listed extracted]
      split: option.splits)

text \<open>
  Claim C6. For every completed run whose reply text can be extracted, the handler
  sends \<^verbatim>\<open>response.substring(0, 1999)\<close>: the first 1999 characters of the reply when
  it is longer than 1999 (so a reply of 5000 characters is sent as 1999), and the reply
  unchanged when its length is at most 1999. The dispatch reaches that reply after the
  polls that end with the status completed; what follows it is the database record, or
  the generic notice when the reply could not be delivered. A list element stands for
  one UTF-16 code unit of the JavaScript string. The same lines serve the scripts with
  and without the database (\<open>db\<close>).
\<close>

theorem reply_truncated_to_1999:
  "(\<not> rate_limited (now_gate env) st
      \<and> resolve_thread (threads_create env) st (channel_id m) = (Inr tid, effs0, st1)
      \<and> send_typing env = None \<and> messages_create env = None \<and> runs_create env = Inr rid
      \<and> polls env = map Inr pre @ Inr ''completed'' # rest
      \<and> (\<forall>s \<in> set pre. s \<notin> set terminalStates)
      \<and> messages_list env = Inr (Some (newest # older)) \<and> first_text newest = Inr v \<longrightarrow>
      dispatch db env st m =
        Some (case reply_response env of
                None \<Rightarrow> Inr ()
              | Some e \<Rightarrow> (case reply_catch env of None \<Rightarrow> Inr () | Some e' \<Rightarrow> Inl e'),
              effs0 @ [SendTyping, MessagesCreate tid (content m), RunsCreate tid]
                @ (waiting tid rid (length pre) @ [RunsRetrieve tid rid])
                @ [MessagesList tid,
                   ConsoleLog (''Response from OpenAI: '' @ take 1999 v),
                   Reply (take 1999 v)]
                @ (case reply_response env of
                     None \<Rightarrow>
                       if db then snd (withDb (db_insert env) ''privateMessages''
                                        (PrivateMessage (channel_id m) (author_id m)
                                           (content m) (take 1999 v) (now_record env)))
                       else []
                   | Some e \<Rightarrow>
                       [ConsoleError (''Error during message processing: '' @ e),
                        Reply generic_notice]),
              st1))
   \<and> (messages_list env = Inr (Some (newest # older)) \<and> first_text newest = Inr v \<longrightarrow>
      completed_branch db env st m tid =
        (case reply_response env of Some e \<Rightarrow> Inl e | None \<Rightarrow> Inr (),
         [MessagesList tid, ConsoleLog (''Response from OpenAI: '' @ take 1999 v),
          Reply (take 1999 v)]
           @ (if db \<and> reply_response env = None
              then snd (withDb (db_insert env) ''privateMessages''
                         (PrivateMessage (channel_id m) (author_id m) (content m)
                            (take 1999 v) (now_record env)))
              else []),
         st))
   \<and> substring v 0 1999 = take 1999 v
   \<and> (1999 < length v \<longrightarrow> length (substring v 0 1999) = 1999)
   \<and> (length v = 5000 \<longrightarrow> length (substring v 0 1999) = 1999)
   \<and> (length v \<le> 1999 \<longrightarrow> substring v 0 1999 = v)"
  using completed_branch_reply[of env newest older v db st m tid]
    dispatch_completed_reply[of env st m tid effs0 st1 rid pre rest newest older v db]
  by (simp add: substring_from_start)

text \<open>
  The theorem at a completed run whose reply has 5000 characters, in the script without
  a database, and at the short reply of the sample run.
\<close>

theorem reply_truncated_to_1999_witness:
  "''queued'' \<notin> set terminalStates \<and> ''in_progress'' \<notin> set terminalStates
   \<and> first_text [TextPart (replicate 5000 CHR ''a'')] = Inr (replicate 5000 CHR ''a'')
   \<and> length (replicate 5000 CHR ''a'') = 5000
   \<and> dispatch False
        (sample_env\<lparr>messages_list := Inr (Some [[TextPart (replicate 5000 CHR ''a'')]])\<rparr>)
        sample_state sample_message
       = Some (Inr (),
               [ThreadsCreate, SendTyping, MessagesCreate ''thread_1'' ''hello'',
                RunsCreate ''thread_1'',
                RunsRetrieve ''thread_1'' ''run_1'', Sleep 1000,
                RunsRetrieve ''thread_1'' ''run_1'', Sleep 1000,
                RunsRetrieve ''thread_1'' ''run_1'',
                MessagesList ''thread_1'',
                ConsoleLog (''Response from OpenAI: '' @ replicate 1999 CHR ''a''),
                Reply (replicate 1999 CHR ''a'')],
               sample_state\<lparr>threadMap := [''9001'' \<mapsto> ''thread_1'']\<rparr>)
   \<and> length (substring (replicate 5000 CHR ''a'') 0 1999) = 1999
   \<and> first_text [TextPart ''Hi there''] = Inr ''Hi there''
   \<and> length ''Hi there'' \<le> 1999
   \<and> substring ''Hi there'' 0 1999 = ''Hi there''"
proof -
  let ?env = "sample_env\<lparr>messages_list := Inr (Some [[TextPart (replicate 5000 CHR ''a'')]])\<rparr>"
  have pre: "''queued'' \<notin> set terminalStates" "''in_progress'' \<notin> set terminalStates"
    by (simp_all add: terminalStates_def)
  have ft: "first_text [TextPart (replicate 5000 CHR ''a'')] = Inr (replicate 5000 CHR ''a'')"
    by (simp add: first_text_def)
  have gate: "\<not> rate_limited (now_gate ?env) sample_state"
    by (simp add: rate_limited_def sample_env_def sample_state_def)
  have thr: "resolve_thread (threads_create ?env) sample_state (channel_id sample_message)
      = (Inr ''thread_1'', [ThreadsCreate], sample_state\<lparr>threadMap := [''9001'' \<mapsto> ''thread_1'']\<rparr>)"
    by (simp add: resolve_thread_def getOpenAiThreadId_def addThreadToMap_def
        sample_env_def sample_state_def sample_message_def)
  have env: "send_typing ?env = None" "messages_create ?env = None"
    "runs_create ?env = Inr ''run_1''"
    "polls ?env = map Inr [''queued'', ''in_progress''] @ Inr ''completed'' # []"
    "messages_list ?env = Inr (Some ([TextPart (replicate 5000 CHR ''a'')] # []))"
    "reply_response ?env = None"
    by (simp_all add: sample_env_def)
  note long = reply_truncated_to_1999
    [where env = ?env and newest = "[TextPart (replicate 5000 CHR ''a'')]" and older = "[]"
       and v = "replicate 5000 CHR ''a''" and db = False and st = sample_state
       and m = sample_message and tid = "''thread_1''" and rid = "''run_1''"
       and pre = "[''queued'', ''in_progress'']" and rest = "[]"
       and ?effs0.0 = "[ThreadsCreate]"
       and ?st1.0 = "sample_state\<lparr>threadMap := [''9001'' \<mapsto> ''thread_1'']\<rparr>"]
  note short = reply_truncated_to_1999
    [where env = sample_env and newest = "[TextPart ''Hi there'']" and older = "[]"
       and v = "''Hi there''" and db = False and st = sample_state
       and m = sample_message and tid = "''thread_1''"]
  have A: "dispatch False ?env sample_state sample_message
       = Some (Inr (),
               [ThreadsCreate, SendTyping, MessagesCreate ''thread_1'' ''hello'',
                RunsCreate ''thread_1'',
                RunsRetrieve ''thread_1'' ''run_1'', Sleep 1000,
                RunsRetrieve ''thread_1'' ''run_1'', Sleep 1000,
                RunsRetrieve ''thread_1'' ''run_1'',
                MessagesList ''thread_1'',
                ConsoleLog (''Response from OpenAI: '' @ replicate 1999 CHR ''a''),
                Reply (replicate 1999 CHR ''a'')],
               sample_state\<lparr>threadMap := [''9001'' \<mapsto> ''thread_1'']\<rparr>)"
    using long pre ft gate thr env
    by (simp add: sample_message_def numeral_2_eq_2)
  have B: "length (substring (replicate 5000 CHR ''a'') 0 1999) = 1999"
    using long by simp
  have C: "first_text [TextPart ''Hi there''] = Inr ''Hi there''"
    by (simp add: first_text_def)
  have D: "substring ''Hi there'' 0 1999 = ''Hi there''"
    using short by simp
  from pre ft A B C D show ?thesis by simp
qed

text \<open>
  Claim C8. A failing database operation is caught and logged inside \<^verbatim>\<open>withDb\<close>, whose
  promise never rejects; the dispatch settles the same way, makes the same calls on the
  platform and the backend (the reply among them) and leaves the same state whether the
  insert succeeds or fails, and they are those of the script without a database.
\<close>

theorem persistence_failure_never_propagates:
  "fst (withDb outcome coll d) = Inr ()
   \<and> snd (withDb (Some e) coll d) = [ConsoleError (''Error during DB operation: '' @ e)]
   \<and> observe (dispatch True (env\<lparr>db_insert := Some e\<rparr>) st m)
       = observe (dispatch True (env\<lparr>db_insert := None\<rparr>) st m)
   \<and> observe (dispatch True (env\<lparr>db_insert := outcome\<rparr>) st m)
       = observe (dispatch False env st m)"
  by (simp add: withDb_resolves dispatch_db) (simp add: withDb_def)

text \<open>
  The theorem at a completed run whose insert fails with a network error.
\<close>

theorem persistence_failure_never_propagates_witness:
  "fst (withDb (Some ''MongoNetworkError'') ''privateMessages''
          (PrivateMessage ''9001'' ''7001'' ''hello'' ''Hi there'' 1003000)) = Inr ()
   \<and> dispatch True (sample_env\<lparr>db_insert := Some ''MongoNetworkError''\<rparr>) sample_state sample_message
       = Some (Inr (),
               [ThreadsCreate, SendTyping, MessagesCreate ''thread_1'' ''hello'',
                RunsCreate ''thread_1'',
                RunsRetrieve ''thread_1'' ''run_1'', Sleep 1000,
                RunsRetrieve ''thread_1'' ''run_1'', Sleep 1000,
                RunsRetrieve ''thread_1'' ''run_1'',
                MessagesList ''thread_1'', ConsoleLog ''Response from OpenAI: Hi there'',
                Reply ''Hi there'',
                ConsoleError ''Error during DB operation: MongoNetworkError''],
               sample_state\<lparr>threadMap := [''9001'' \<mapsto> ''thread_1'']\<rparr>)
   \<and> observe (dispatch True (sample_env\<lparr>db_insert := Some ''MongoNetworkError''\<rparr>) sample_state sample_message)
       = observe (dispatch True (sample_env\<lparr>db_insert := None\<rparr>) sample_state sample_message)"
proof -
  note inst = persistence_failure_never_propagates
    [where outcome = "Some ''MongoNetworkError''" and coll = "''privateMessages''"
       and d = "PrivateMessage ''9001'' ''7001'' ''hello'' ''Hi there'' 1003000"
       and e = "''MongoNetworkError''" and env = sample_env and st = sample_state
       and m = sample_message]
  have run: "dispatch True (sample_env\<lparr>db_insert := Some ''MongoNetworkError''\<rparr>) sample_state sample_message
       = Some (Inr (),
               [ThreadsCreate, SendTyping, MessagesCreate ''thread_1'' ''hello'',
                RunsCreate ''thread_1'',
                RunsRetrieve ''thread_1'' ''run_1'', Sleep 1000,
                RunsRetrieve ''thread_1'' ''run_1'', Sleep 1000,
                RunsRetrieve ''thread_1'' ''run_1'',
                MessagesList ''thread_1'', ConsoleLog ''Response from OpenAI: Hi there'',
                Reply ''Hi there'',
                ConsoleError ''Error during DB operation: MongoNetworkError''],
               sample_state\<lparr>threadMap := [''9001'' \<mapsto> ''thread_1'']\<rparr>)"
    by (simp add: dispatch_def try_body_def completed_branch_def first_text_def Let_def
        substring_def withDb_def resolve_thread_def getOpenAiThreadId_def addThreadToMap_def
        rate_limited_def terminalStates_def sample_env_def sample_state_def sample_message_def)
  from inst run show ?thesis by simp
qed

section \<open>Admission by channel name\<close>

lemma resolve_thread_registry:
  "resolve_thread created (st\<lparr>channelsMap := cm\<rparr>) c
     = (case resolve_thread created st c of (r, effs, s) \<Rightarrow> (r, effs, s\<lparr>channelsMap := cm\<rparr>))"
  by (simp add: resolve_thread_def getOpenAiThreadId_def addThreadToMap_def
      split: option.splits sum.splits)

lemma failed_branch_registry:
  "failed_branch env (st\<lparr>channelsMap := cm\<rparr>) tid rid
     = (case failed_branch env st tid rid of (r, effs, s) \<Rightarrow> (r, effs, s\<lparr>channelsMap := cm\<rparr>))"
  by (simp add: failed_branch_def penalize_def Let_def split: option.splits sum.splits)

lemma completed_branch_registry:
  "completed_branch db env (st\<lparr>channelsMap := cm\<rparr>) m tid
     = (case completed_branch db env st m tid of (r, effs, s) \<Rightarrow> (r, effs, s\<lparr>channelsMap := cm\<rparr>))"
  by (simp add: completed_branch_def Let_def split: option.splits sum.splits list.splits)

lemma try_body_registry:
  "try_body db env (st\<lparr>channelsMap := cm\<rparr>) m tid
     = map_option (\<lambda>(r, effs, s). (r, effs, s\<lparr>channelsMap := cm\<rparr>)) (try_body db env st m tid)"
  by (simp add: try_body_def Let_def failed_branch_registry completed_branch_registry
      split: option.splits sum.splits prod.splits)

lemma dispatch_registry:
  "dispatch db env (st\<lparr>channelsMap := cm\<rparr>) m
     = map_option (\<lambda>(r, effs, s). (r, effs, s\<lparr>channelsMap := cm\<rparr>)) (dispatch db env st m)"
proof (cases "rate_limited (now_gate env) st")
  case True
  then show ?thesis
    by (simp add: dispatch_def rate_limited_def split: option.splits)
next
  case False
  obtain r0 e0 st1 where R: "resolve_thread (threads_create env) st (channel_id m) = (r0, e0, st1)"
    by (cases "resolve_thread (threads_create env) st (channel_id m)") auto
  from False R show ?thesis
    by (simp add: dispatch_def rate_limited_def resolve_thread_registry try_body_registry
        split: option.splits sum.splits prod.splits)
qed

text \<open>
  Claim C9. A guild message that passes the handler's first filters (its author is not
  a bot, it has content, it is not the channel-creation command) enters the AI dispatch
  exactly when its channel is a guild text channel whose name starts with
  \<^verbatim>\<open>private-\<close>; the dispatch never reads \<^verbatim>\<open>channelsMap\<close>, so whatever the registry
  holds (nothing, for a channel the bot never created) the dispatch does the same.
\<close>

theorem dispatch_admission_by_channel_name:
  "(\<not> author_bot m \<and> content m \<noteq> []
      \<and> \<not> (startsWith (content m) ''!createPrivateChannel'' \<and> channel_id m = COMMAND_CHANNEL_ID)
    \<longrightarrow> messageCreate cenv env st m =
          (if channel_type m = GuildText \<and> startsWith (channel_name m) ''private-''
           then dispatch True env st m else Some (Inr (), [], st)))
   \<and> dispatch db env (st\<lparr>channelsMap := cm\<rparr>) m
       = map_option (\<lambda>(r, effs, s). (r, effs, s\<lparr>channelsMap := cm\<rparr>)) (dispatch db env st m)"
  by (simp add: dispatch_registry) (simp add: messageCreate_def)

text \<open>
  The theorem at a message in a channel named \<^verbatim>\<open>private-7001\<close> with an empty registry:
  the message reaches the backend and is answered.
\<close>

theorem dispatch_admission_by_channel_name_witness:
  "\<not> author_bot sample_message \<and> content sample_message \<noteq> []
   \<and> \<not> startsWith (content sample_message) ''!createPrivateChannel''
   \<and> channelsMap sample_state (channel_id sample_message) = None
   \<and> channel_type sample_message = GuildText
   \<and> startsWith (channel_name sample_message) ''private-''
   \<and> messageCreate sample_create_env sample_env sample_state sample_message
       = dispatch True sample_env sample_state sample_message
   \<and> dispatch True sample_env sample_state sample_message
       = Some (Inr (),
               [ThreadsCreate, SendTyping, MessagesCreate ''thread_1'' ''hello'',
                RunsCreate ''thread_1'',
                RunsRetrieve ''thread_1'' ''run_1'', Sleep 1000,
                RunsRetrieve ''thread_1'' ''run_1'', Sleep 1000,
                RunsRetrieve ''thread_1'' ''run_1'',
                MessagesList ''thread_1'', ConsoleLog ''Response from OpenAI: Hi there'',
                Reply ''Hi there'',
                Inserted ''privateMessages''
                  (PrivateMessage ''9001'' ''7001'' ''hello'' ''Hi there'' 1003000)],
               sample_state\<lparr>threadMap := [''9001'' \<mapsto> ''thread_1'']\<rparr>)"
proof -
  have m: "\<not> author_bot sample_message" "content sample_message \<noteq> []"
    "\<not> startsWith (content sample_message) ''!createPrivateChannel''"
    "channel_type sample_message = GuildText"
    "startsWith (channel_name sample_message) ''private-''"
    by (simp_all add: sample_message_def startsWith_def)
  have reg: "channelsMap sample_state (channel_id sample_message) = None"
    by (simp add: sample_state_def)
  note inst = dispatch_admission_by_channel_name
    [where m = sample_message and cenv = sample_create_env and env = sample_env
       and st = sample_state and db = True and cm = Map.empty]
  have route: "messageCreate sample_create_env sample_env sample_state sample_message
       = dispatch True sample_env sample_state sample_message"
    using inst m by simp
  have run: "dispatch True sample_env sample_state sample_message
       = Some (Inr (),
               [ThreadsCreate, SendTyping, MessagesCreate ''thread_1'' ''hello'',
                RunsCreate ''thread_1'',
                RunsRetrieve ''thread_1'' ''run_1'', Sleep 1000,
                RunsRetrieve ''thread_1'' ''run_1'', Sleep 1000,
                RunsRetrieve ''thread_1'' ''run_1'',
                MessagesList ''thread_1'', ConsoleLog ''Response from OpenAI: Hi there'',
                Reply ''Hi there'',
                Inserted ''privateMessages''
                  (PrivateMessage ''9001'' ''7001'' ''hello'' ''Hi there'' 1003000)],
               sample_state\<lparr>threadMap := [''9001'' \<mapsto> ''thread_1'']\<rparr>)"
    by (simp add: dispatch_def try_body_def completed_branch_def first_text_def Let_def
        substring_def withDb_def resolve_thread_def getOpenAiThreadId_def addThreadToMap_def
        rate_limited_def terminalStates_def sample_env_def sample_state_def sample_message_def)
  from m reg route run show ?thesis by simp
qed

section \<open>Rate gate and session window\<close>



lemma failed_branch_gate:
  "failed_branch env st tid rid = (r, effs, st') \<Longrightarrow>
     st' = st \<or> st' = penalize (now_penalty env) st"
  by (auto simp: failed_branch_def Let_def split: option.splits sum.splits if_splits)

lemma completed_branch_state:
  "completed_branch db env st m tid = (r, effs, st') \<Longrightarrow> st' = st"
  by (auto simp: completed_branch_def Let_def split: option.splits sum.splits list.splits)

lemma try_body_gate:
  "try_body db env st m tid = Some (r, effs, st') \<Longrightarrow>
     st' = st \<or> st' = penalize (now_penalty env) st"
  by (auto simp: try_body_def Let_def
      split: option.splits sum.splits if_splits prod.splits
      dest: failed_branch_gate completed_branch_state)














lemma resolve_thread_sessions:
  "resolve_thread created st c = (r, effs, st') \<Longrightarrow> dmSessions st' = dmSessions st"
  by (auto simp: resolve_thread_def addThreadToMap_def split: option.splits sum.splits if_splits)

lemma dispatch_sessions:
  assumes "dispatch db env st m = Some (r, effs, st')"
  shows "dmSessions st' = dmSessions st"
proof (cases "rate_limited (now_gate env) st")
  case True
  with assms show ?thesis
    by (auto simp: dispatch_def split: option.splits)
next
  case False
  obtain r0 e0 st1 where R: "resolve_thread (threads_create env) st (channel_id m) = (r0, e0, st1)"
    by (cases "resolve_thread (threads_create env) st (channel_id m)") auto
  have s1: "dmSessions st1 = dmSessions st"
    using R by (rule resolve_thread_sessions)
  show ?thesis
  proof (cases r0)
    case (Inl e)
    with assms False R s1 show ?thesis by (auto simp: dispatch_def)
  next
    case (Inr tid)
    with assms False R obtain r2 e2 where T: "try_body db env st1 m tid = Some (r2, e2, st')"
      by (auto simp: dispatch_def split: option.splits sum.splits prod.splits)
    from try_body_gate[OF T] s1 show ?thesis
      by (auto simp: penalize_def)
  qed
qed

lemma messageCreate_dm_sessions_positive:
  assumes "\<forall>v e. dmSessions st v = Some e \<longrightarrow> 0 < e"
    and "messageCreate_dm env st m = Some (r, effs, st')"
  shows "\<forall>v e. dmSessions st' v = Some e \<longrightarrow> 0 < e"
proof -
  have "dmSessions st' = dmSessions st
      \<or> st' = startSession (author_id m) (now_session env) st"
    using assms(2)
    by (auto simp: messageCreate_dm_def Let_def
        split: if_splits option.splits prod.splits dest: dispatch_sessions)
  with assms(1) show ?thesis
    by (auto simp: startSession_def split: if_splits)
qed

text \<open>
  Claim C5. Starting a session for user \<open>u\<close> at time \<open>t0\<close> stores the expiry
  \<open>t0 + 600000\<close> for \<open>u\<close> whatever was stored before. A direct message from \<open>u\<close> is
  admitted exactly when a session is stored and \<open>now \<le> expiry\<close>: it is admitted at
  \<open>t0 + 599999\<close> and rejected at \<open>t0 + 600001\<close>. (An expiry is a clock reading plus
  600000, so no stored expiry is the falsy value 0: the handler keeps every stored
  expiry positive.) In the handler, the start command in the
  trigger channel starts the session, and a direct message goes on to the dispatch if
  admitted and is answered with the expiry notice otherwise.
\<close>

theorem session_window_600000:
  "dmSessions (startSession u t0 st) u = Some (t0 + 600000)
   \<and> (isAdmitted u now (startSession u t0 st) \<longleftrightarrow> now \<le> t0 + 600000)
   \<and> isAdmitted u (t0 + 599999) (startSession u t0 st)
   \<and> \<not> isAdmitted u (t0 + 600001) (startSession u t0 st)
   \<and> (dmSessions st u = None \<longrightarrow> \<not> isAdmitted u now st)
   \<and> (dmSessions st u = Some expiry \<and> 0 < expiry \<longrightarrow> (isAdmitted u now st \<longleftrightarrow> now \<le> expiry))
   \<and> (\<not> author_bot m \<and> content m \<noteq> [] \<and> startsWith (content m) ''!create''
        \<and> channel_id m = TRIGGER_CHANNEL_ID \<longrightarrow>
       messageCreate_dm env st m =
         Some (Inr (),
               [ConsoleLog (''Message received:  '' @ content m),
                AuthorSend session_started_notice,
                ConsoleLog (''Session started for '' @ author_id m)],
               startSession (author_id m) (now_session env) st))
   \<and> (\<not> author_bot m \<and> content m \<noteq> []
        \<and> \<not> (startsWith (content m) ''!create'' \<and> channel_id m = TRIGGER_CHANNEL_ID)
        \<and> channel_type m = DM \<and> \<not> isAdmitted (author_id m) (now_session env) st \<longrightarrow>
       messageCreate_dm env st m =
         Some (Inr (),
               [ConsoleLog (''Message received:  '' @ content m),
                ConsoleLog ''Processing DM...'',
                AuthorSend session_expired_notice,
                ConsoleLog (''Session ended or not started for '' @ author_id m)],
               st))
   \<and> (\<not> author_bot m \<and> content m \<noteq> []
        \<and> \<not> (startsWith (content m) ''!create'' \<and> channel_id m = TRIGGER_CHANNEL_ID)
        \<and> channel_type m = DM \<and> isAdmitted (author_id m) (now_session env) st \<longrightarrow>
       observe (messageCreate_dm env st m) = observe (dispatch False env st m))
   \<and> ((\<forall>v e. dmSessions st v = Some e \<longrightarrow> 0 < e)
        \<and> messageCreate_dm env st m = Some (r, effs, st') \<longrightarrow>
       (\<forall>v e. dmSessions st' v = Some e \<longrightarrow> 0 < e))"
proof -
  have positive: "(\<forall>v e. dmSessions st v = Some e \<longrightarrow> 0 < e)
        \<and> messageCreate_dm env st m = Some (r, effs, st') \<longrightarrow>
       (\<forall>v e. dmSessions st' v = Some e \<longrightarrow> 0 < e)"
    using messageCreate_dm_sessions_positive[of st env m r effs st'] by blast
  have dm: "\<not> author_bot m \<and> content m \<noteq> []
        \<and> \<not> (startsWith (content m) ''!create'' \<and> channel_id m = TRIGGER_CHANNEL_ID)
        \<and> channel_type m = DM \<and> isAdmitted (author_id m) (now_session env) st \<longrightarrow>
       observe (messageCreate_dm env st m) = observe (dispatch False env st m)"
    by (cases "dispatch False env st m")
       (auto simp: messageCreate_dm_def observe_def Let_def)
  have rest: "dmSessions (startSession u t0 st) u = Some (t0 + 600000)
   \<and> (isAdmitted u now (startSession u t0 st) \<longleftrightarrow> now \<le> t0 + 600000)
   \<and> isAdmitted u (t0 + 599999) (startSession u t0 st)
   \<and> \<not> isAdmitted u (t0 + 600001) (startSession u t0 st)
   \<and> (dmSessions st u = None \<longrightarrow> \<not> isAdmitted u now st)
   \<and> (dmSessions st u = Some expiry \<and> 0 < expiry \<longrightarrow> (isAdmitted u now st \<longleftrightarrow> now \<le> expiry))"
    by (auto simp: startSession_def isAdmitted_def)
  have start: "\<not> author_bot m \<and> content m \<noteq> [] \<and> startsWith (content m) ''!create''
        \<and> channel_id m = TRIGGER_CHANNEL_ID \<longrightarrow>
       messageCreate_dm env st m =
         Some (Inr (),
               [ConsoleLog (''Message received:  '' @ content m),
                AuthorSend session_started_notice,
                ConsoleLog (''Session started for '' @ author_id m)],
               startSession (author_id m) (now_session env) st)"
    by (simp add: messageCreate_dm_def Let_def)
  have reject: "\<not> author_bot m \<and> content m \<noteq> []
        \<and> \<not> (startsWith (content m) ''!create'' \<and> channel_id m = TRIGGER_CHANNEL_ID)
        \<and> channel_type m = DM \<and> \<not> isAdmitted (author_id m) (now_session env) st \<longrightarrow>
       messageCreate_dm env st m =
         Some (Inr (),
               [ConsoleLog (''Message received:  '' @ content m),
                ConsoleLog ''Processing DM...'',
                AuthorSend session_expired_notice,
                ConsoleLog (''Session ended or not started for '' @ author_id m)],
               st)"
    by (auto simp: messageCreate_dm_def Let_def)
  from rest start reject dm positive show ?thesis by blast
qed


text \<open>
  The theorem at a session started at 1000000 and a direct message at 1600001.
\<close>

theorem session_window_600000_witness:
  "\<not> author_bot sample_trigger \<and> content sample_trigger \<noteq> []
   \<and> startsWith (content sample_trigger) ''!create''
   \<and> channel_id sample_trigger = TRIGGER_CHANNEL_ID
   \<and> messageCreate_dm (sample_env\<lparr>now_session := 1000000\<rparr>) sample_state sample_trigger
       = Some (Inr (),
               [ConsoleLog ''Message received:  !create'',
                AuthorSend session_started_notice,
                ConsoleLog ''Session started for 7001''],
               startSession ''7001'' 1000000 sample_state)
   \<and> dmSessions (startSession ''7001'' 1000000 sample_state) ''7001'' = Some 1600000
   \<and> isAdmitted ''7001'' 1599999 (startSession ''7001'' 1000000 sample_state)
   \<and> isAdmitted ''7001'' 1600000 (startSession ''7001'' 1000000 sample_state)
   \<and> \<not> isAdmitted ''7001'' 1600001 (startSession ''7001'' 1000000 sample_state)
   \<and> channel_type sample_dm = DM
   \<and> messageCreate_dm (sample_env\<lparr>now_session := 1600001\<rparr>)
        (startSession ''7001'' 1000000 sample_state) sample_dm
       = Some (Inr (),
               [ConsoleLog ''Message received:  hello'',
                ConsoleLog ''Processing DM...'',
                AuthorSend session_expired_notice,
                ConsoleLog ''Session ended or not started for 7001''],
               startSession ''7001'' 1000000 sample_state)"
proof -
  have trig: "\<not> author_bot sample_trigger" "content sample_trigger \<noteq> []"
    "startsWith (content sample_trigger) ''!create''"
    "channel_id sample_trigger = TRIGGER_CHANNEL_ID"
    by (simp_all add: sample_trigger_def startsWith_def TRIGGER_CHANNEL_ID_def)
  have dm: "\<not> author_bot sample_dm" "content sample_dm \<noteq> []"
    "\<not> startsWith (content sample_dm) ''!create''" "channel_type sample_dm = DM"
    "author_id sample_dm = ''7001''" "content sample_dm = ''hello''"
    by (simp_all add: sample_dm_def startsWith_def)
  have tr: "author_id sample_trigger = ''7001''" "content sample_trigger = ''!create''"
    by (simp_all add: sample_trigger_def)
  note start = session_window_600000
    [where u = "''7001''" and ?t0.0 = 1000000 and st = sample_state
       and m = sample_trigger and env = "sample_env\<lparr>now_session := 1000000\<rparr>"]
  note later = session_window_600000
    [where u = "''7001''" and ?t0.0 = 1000000 and st = "startSession ''7001'' 1000000 sample_state"
       and m = sample_dm and env = "sample_env\<lparr>now_session := 1600001\<rparr>"]
  have a: "messageCreate_dm (sample_env\<lparr>now_session := 1000000\<rparr>) sample_state sample_trigger
       = Some (Inr (),
               [ConsoleLog ''Message received:  !create'',
                AuthorSend session_started_notice,
                ConsoleLog ''Session started for 7001''],
               startSession ''7001'' 1000000 sample_state)"
    using start trig tr by simp
  have b: "dmSessions (startSession ''7001'' 1000000 sample_state) ''7001'' = Some 1600000"
    using start by simp
  have c: "isAdmitted ''7001'' 1599999 (startSession ''7001'' 1000000 sample_state)"
    using start by simp
  have c': "isAdmitted ''7001'' 1600000 (startSession ''7001'' 1000000 sample_state)"
    using start[where now = 1600000] by simp
  have d: "\<not> isAdmitted ''7001'' 1600001 (startSession ''7001'' 1000000 sample_state)"
    using start by simp
  have e: "messageCreate_dm (sample_env\<lparr>now_session := 1600001\<rparr>)
        (startSession ''7001'' 1000000 sample_state) sample_dm
       = Some (Inr (),
               [ConsoleLog ''Message received:  hello'',
                ConsoleLog ''Processing DM...'',
                AuthorSend session_expired_notice,
                ConsoleLog ''Session ended or not started for 7001''],
               startSession ''7001'' 1000000 sample_state)"
    using later dm d by simp
  from trig a b c c' d dm(4) e show ?thesis by simp
qed

section \<open>Closing a private channel\<close>

lemma delete_calls_append: "delete_calls (xs @ ys) = delete_calls xs + delete_calls ys"
  by (induction xs rule: delete_calls.induct) simp_all

lemma deletion_records_append:
  "deletion_records (xs @ ys) = deletion_records xs + deletion_records ys"
  by (induction xs rule: deletion_records.induct) simp_all

lemma delete_calls_withDb: "delete_calls (snd (withDb outcome coll d)) = 0"
  by (simp add: withDb_def split: option.splits)

lemma deletion_records_withDb:
  "deletion_records (snd (withDb outcome coll (ChannelDeletion c t)))
     = (if outcome = None then 1 else 0)"
  by (simp add: withDb_def split: option.splits)

lemma timer_step_records:
  "deletion_records (trace (timer_step cenv cid sys))
     \<le> deletion_records (trace sys) + (if timer sys = TimerDone then 0 else 1)
   \<and> (timer (timer_step cenv cid sys) \<noteq> TimerDone \<longrightarrow>
        deletion_records (trace (timer_step cenv cid sys)) = deletion_records (trace sys))"
  by (simp add: timer_step_def deletion_records_append deletion_records_withDb
      split: timer_pc.splits sum.splits option.splits)

lemma timer_step_done: "timer sys = TimerDone \<Longrightarrow> timer_step cenv cid sys = sys"
  by (simp add: timer_step_def)

lemma timer_step_stays_done:
  "timer sys = TimerDone \<Longrightarrow> timer (timer_step cenv cid sys) = TimerDone"
  by (simp add: timer_step_done)

lemma click_step_records:
  "deletion_records (trace (click_step cenv i sys)) = deletion_records (trace sys)
   \<and> timer (click_step cenv i sys) = timer sys"
  by (simp add: click_step_def deletion_records_append
      split: click_pc.splits option.splits)

lemma run_close_records:
  "deletion_records (trace (run_close cenv cid i sched sys))
     \<le> deletion_records (trace sys) + (if timer sys = TimerDone then 0 else 1)"
proof (induction sched arbitrary: sys)
  case Nil
  then show ?case by simp
next
  case (Cons p ps)
  show ?case
  proof (cases p)
    case TimerProc
    let ?s = "timer_step cenv cid sys"
    have ih: "deletion_records (trace (run_close cenv cid i ps ?s))
            \<le> deletion_records (trace ?s) + (if timer ?s = TimerDone then 0 else 1)"
      by (rule Cons.IH)
    show ?thesis
    proof (cases "timer ?s = TimerDone")
      case True
      with ih timer_step_records[of cenv cid sys] TimerProc show ?thesis
        by (auto split: if_splits)
    next
      case False
      then have "timer sys \<noteq> TimerDone"
        using timer_step_stays_done[of sys cenv cid] by blast
      with False ih timer_step_records[of cenv cid sys] TimerProc show ?thesis
        by auto
    qed
  next
    case ClickProc
    with Cons.IH[of "click_step cenv i sys"] click_step_records[of cenv i sys]
    show ?thesis by simp
  qed
qed

lemma timer_step_deletes:
  "delete_calls (trace sys) \<le> timer_deletes (timer sys) + n \<Longrightarrow>
     delete_calls (trace (timer_step cenv cid sys))
       \<le> timer_deletes (timer (timer_step cenv cid sys)) + n
     \<and> click (timer_step cenv cid sys) = click sys"
  by (cases "timer sys")
     (auto simp: timer_step_def delete_calls_append delete_calls_withDb
        split: sum.splits option.splits)

lemma click_step_deletes:
  "delete_calls (trace sys) \<le> n + click_deletes (click sys) \<Longrightarrow>
     delete_calls (trace (click_step cenv i sys))
       \<le> n + click_deletes (click (click_step cenv i sys))
     \<and> timer (click_step cenv i sys) = timer sys"
  by (cases "click sys")
     (auto simp: click_step_def delete_calls_append split: option.splits)

lemma run_close_deletes:
  "delete_calls (trace sys) \<le> timer_deletes (timer sys) + click_deletes (click sys) \<Longrightarrow>
     delete_calls (trace (run_close cenv cid i sched sys))
       \<le> timer_deletes (timer (run_close cenv cid i sched sys))
         + click_deletes (click (run_close cenv cid i sched sys))"
proof (induction sched arbitrary: sys)
  case Nil
  then show ?case by simp
next
  case (Cons p ps)
  show ?case
  proof (cases p)
    case TimerProc
    from timer_step_deletes[OF Cons.prems, of cenv cid]
    have "delete_calls (trace (timer_step cenv cid sys))
            \<le> timer_deletes (timer (timer_step cenv cid sys))
              + click_deletes (click (timer_step cenv cid sys))"
      by simp
    from Cons.IH[OF this] TimerProc show ?thesis by simp
  next
    case ClickProc
    from click_step_deletes[OF Cons.prems, of cenv i]
    have "delete_calls (trace (click_step cenv i sys))
            \<le> timer_deletes (timer (click_step cenv i sys))
              + click_deletes (click (click_step cenv i sys))"
      by simp
    from Cons.IH[OF this] ClickProc show ?thesis by simp
  qed
qed

lemma timer_deletes_le: "timer_deletes pc \<le> 1"
  by (cases pc) simp_all

lemma click_deletes_le: "click_deletes pc \<le> 1"
  by (cases pc) simp_all

lemma run_close_at_most_two_deletes:
  "delete_calls (trace (run_close cenv cid i sched (close_start st))) \<le> 2"
proof -
  let ?s = "run_close cenv cid i sched (close_start st)"
  have "delete_calls (trace ?s) \<le> timer_deletes (timer ?s) + click_deletes (click ?s)"
    by (rule run_close_deletes) (simp add: close_start_def)
  with timer_deletes_le[of "timer ?s"] click_deletes_le[of "click ?s"]
  show ?thesis by linarith
qed

lemma run_close_at_most_one_record:
  "deletion_records (trace (run_close cenv cid i sched (close_start st))) \<le> 1"
  using run_close_records[of cenv cid i sched "close_start st"]
  by (simp add: close_start_def)

lemma timer_first_once:
  assumes "channelsMap st cid = Some ch" and "i_channelId i = cid"
    and "fetch_r cenv = Inr (Some fc)" and "timer_delete_r cenv = None"
  shows "trace (run_close cenv cid i [TimerProc, TimerProc, TimerProc, ClickProc, ClickProc]
                  (close_start st))
           = [ChannelsFetch cid, ChannelDelete (ch_id fc),
              ConsoleLog (''Channel '' @ ch_name fc @ '' has been automatically deleted.'')]
             @ snd (withDb (db_deletion cenv) ''channelDeletions''
                      (ChannelDeletion (ch_id fc) (now_deleted cenv)))"
    and "channelsMap (bot (run_close cenv cid i
                             [TimerProc, TimerProc, TimerProc, ClickProc, ClickProc]
                             (close_start st))) cid = None"
  using assms
  by (simp_all add: close_start_def timer_step_def click_step_def unregister_def)

lemma click_first_once:
  assumes "channelsMap st cid = Some ch" and "i_channelId i = cid"
    and "isButton i" and "customId i = ''close_ticket''"
    and "click_delete_r cenv = None"
  shows "trace (run_close cenv cid i [ClickProc, ClickProc, TimerProc, TimerProc, TimerProc]
                  (close_start st))
           = [ChannelDelete (ch_id ch),
              ConsoleLog (''Channel '' @ ch_name ch @ '' has been deleted by user interaction.'')]"
    and "channelsMap (bot (run_close cenv cid i
                             [ClickProc, ClickProc, TimerProc, TimerProc, TimerProc]
                             (close_start st))) cid = None"
  using assms
  by (simp_all add: close_start_def timer_step_def click_step_def unregister_def)


lemma timer_first_once_any_delete:
  assumes "channelsMap st cid = Some ch" and "i_channelId i = cid"
    and "fetch_r cenv = Inr (Some fc)"
  shows "delete_calls (trace (run_close cenv cid i
                                [TimerProc, TimerProc, TimerProc, ClickProc, ClickProc]
                                (close_start st))) = 1"
    and "deletion_records (trace (run_close cenv cid i
                                [TimerProc, TimerProc, TimerProc, ClickProc, ClickProc]
                                (close_start st)))
           = (if timer_delete_r cenv = None \<and> db_deletion cenv = None then 1 else 0)"
    and "channelsMap (bot (run_close cenv cid i
                             [TimerProc, TimerProc, TimerProc, ClickProc, ClickProc]
                             (close_start st))) cid = None"
  using assms
  by (cases "timer_delete_r cenv";
      simp add: close_start_def timer_step_def click_step_def unregister_def
        delete_calls_withDb deletion_records_withDb)+

lemma timer_step_never_zero:
  assumes "1 \<le> delete_calls (trace sys) \<or> channelsMap (bot sys) cid = None
           \<or> timer_deletes (timer sys) = 0 \<and> click_deletes (click sys) = 0"
  shows "1 \<le> delete_calls (trace (timer_step cenv cid sys))
         \<or> channelsMap (bot (timer_step cenv cid sys)) cid = None
         \<or> timer_deletes (timer (timer_step cenv cid sys)) = 0
           \<and> click_deletes (click (timer_step cenv cid sys)) = 0"
  using assms
  by (cases "timer sys")
     (auto simp: timer_step_def unregister_def delete_calls_append
        split: sum.splits option.splits)

lemma click_step_never_zero:
  assumes "isButton i" and "customId i = ''close_ticket''" and "i_channelId i = cid"
    and "1 \<le> delete_calls (trace sys) \<or> channelsMap (bot sys) cid = None
         \<or> timer_deletes (timer sys) = 0 \<and> click_deletes (click sys) = 0"
  shows "1 \<le> delete_calls (trace (click_step cenv i sys))
         \<or> channelsMap (bot (click_step cenv i sys)) cid = None
         \<or> timer_deletes (timer (click_step cenv i sys)) = 0
           \<and> click_deletes (click (click_step cenv i sys)) = 0"
  using assms
  by (cases "click sys")
     (auto simp: click_step_def unregister_def delete_calls_append split: option.splits)

lemma run_close_never_zero:
  assumes "isButton i" and "customId i = ''close_ticket''" and "i_channelId i = cid"
    and "1 \<le> delete_calls (trace sys) \<or> channelsMap (bot sys) cid = None
         \<or> timer_deletes (timer sys) = 0 \<and> click_deletes (click sys) = 0"
  shows "1 \<le> delete_calls (trace (run_close cenv cid i sched sys))
         \<or> channelsMap (bot (run_close cenv cid i sched sys)) cid = None
         \<or> timer_deletes (timer (run_close cenv cid i sched sys)) = 0
           \<and> click_deletes (click (run_close cenv cid i sched sys)) = 0"
  using assms(4)
proof (induction sched arbitrary: sys)
  case Nil
  then show ?case by simp
next
  case (Cons p ps)
  show ?case
  proof (cases p)
    case TimerProc
    from Cons.IH[OF timer_step_never_zero[OF Cons.prems, of cenv]] TimerProc
    show ?thesis by simp
  next
    case ClickProc
    from Cons.IH[OF click_step_never_zero[OF assms(1-3) Cons.prems, of cenv]] ClickProc
    show ?thesis by simp
  qed
qed

lemma timer_step_one_delete:
  assumes "fetch_r cenv = Inr (Some fc)"
    and "1 \<le> delete_calls (trace sys)
         \<or> channelsMap (bot sys) cid \<noteq> None
           \<and> timer_deletes (timer sys) = 0 \<and> click_deletes (click sys) = 0"
  shows "1 \<le> delete_calls (trace (timer_step cenv cid sys))
         \<or> channelsMap (bot (timer_step cenv cid sys)) cid \<noteq> None
           \<and> timer_deletes (timer (timer_step cenv cid sys)) = 0
           \<and> click_deletes (click (timer_step cenv cid sys)) = 0"
  using assms
  by (cases "timer sys")
     (auto simp: timer_step_def unregister_def delete_calls_append
        split: sum.splits option.splits)

lemma click_step_one_delete:
  assumes "isButton i" and "customId i = ''close_ticket''" and "i_channelId i = cid"
    and "1 \<le> delete_calls (trace sys)
         \<or> channelsMap (bot sys) cid \<noteq> None
           \<and> timer_deletes (timer sys) = 0 \<and> click_deletes (click sys) = 0"
  shows "1 \<le> delete_calls (trace (click_step cenv i sys))
         \<or> channelsMap (bot (click_step cenv i sys)) cid \<noteq> None
           \<and> timer_deletes (timer (click_step cenv i sys)) = 0
           \<and> click_deletes (click (click_step cenv i sys)) = 0"
  using assms
  by (cases "click sys")
     (auto simp: click_step_def unregister_def delete_calls_append split: option.splits)

lemma run_close_one_delete:
  assumes "isButton i" and "customId i = ''close_ticket''" and "i_channelId i = cid"
    and "fetch_r cenv = Inr (Some fc)"
    and "1 \<le> delete_calls (trace sys)
         \<or> channelsMap (bot sys) cid \<noteq> None
           \<and> timer_deletes (timer sys) = 0 \<and> click_deletes (click sys) = 0"
  shows "1 \<le> delete_calls (trace (run_close cenv cid i sched sys))
         \<or> channelsMap (bot (run_close cenv cid i sched sys)) cid \<noteq> None
           \<and> timer_deletes (timer (run_close cenv cid i sched sys)) = 0
           \<and> click_deletes (click (run_close cenv cid i sched sys)) = 0"
  using assms(5)
proof (induction sched arbitrary: sys)
  case Nil
  then show ?case by simp
next
  case (Cons p ps)
  show ?case
  proof (cases p)
    case TimerProc
    from Cons.IH[OF timer_step_one_delete[OF assms(4) Cons.prems]] TimerProc
    show ?thesis by simp
  next
    case ClickProc
    from Cons.IH[OF click_step_one_delete[OF assms(1-3) Cons.prems, of cenv]] ClickProc
    show ?thesis by simp
  qed
qed

lemma ended_has_deleted:
  "timer sys = TimerDone \<or> click sys = ClickDone \<Longrightarrow>
     \<not> (timer_deletes (timer sys) = 0 \<and> click_deletes (click sys) = 0)"
  by auto

text \<open>
  Claim C1 says that when the deletion timer and the close button both fire, in either
  order and however interleaved, exactly one platform delete call is issued and exactly
  one deletion record is written. The script does otherwise. The button handler
  unregisters the channel only after its delete call has settled, so a timer that fires
  in between still finds the channel registered and issues a second delete call; and
  the button handler writes no deletion record, so when it runs first none is written.
\<close>

theorem close_race_counterexample:
  "channelsMap sample_registered ''9001'' = Some sample_channel
   \<and> delete_calls (trace (run_close sample_close_env ''9001'' sample_click
                              [ClickProc, TimerProc, TimerProc, ClickProc, TimerProc]
                              (close_start sample_registered))) = 2
   \<and> deletion_records (trace (run_close sample_close_env ''9001'' sample_click
                              [ClickProc, ClickProc, TimerProc, TimerProc, TimerProc]
                              (close_start sample_registered))) = 0"
  by (simp add: close_start_def timer_step_def click_step_def unregister_def
      sample_registered_def sample_close_env_def sample_click_def sample_channel_def)

text \<open>
  Claim C1, as amended. For a registered channel whose deletion timer and close button
  both fire: in every interleaving, and whatever the platform answers, once either
  handler has ended at least one platform delete call has been issued or the channel is
  no longer registered, and when the timer's fetch returns the channel at least one
  delete call has been issued; at most two delete calls are issued and at most one
  deletion record is written. When the two handlers run one after the other with no
  interleaving, exactly one delete call is issued and the channel ends unregistered,
  provided the timer's fetch returns the channel (timer first) or the button's delete
  succeeds (button first); with the timer first, exactly one deletion record is
  written when its delete and the insert succeed.
\<close>

theorem close_once_without_interleaving:
  "(channelsMap st cid = Some ch \<and> i_channelId i = cid
      \<and> fetch_r cenv = Inr (Some fc) \<longrightarrow>
      delete_calls (trace (run_close cenv cid i
                             [TimerProc, TimerProc, TimerProc, ClickProc, ClickProc]
                             (close_start st))) = 1
      \<and> deletion_records (trace (run_close cenv cid i
                             [TimerProc, TimerProc, TimerProc, ClickProc, ClickProc]
                             (close_start st)))
          = (if timer_delete_r cenv = None \<and> db_deletion cenv = None then 1 else 0)
      \<and> channelsMap (bot (run_close cenv cid i
                             [TimerProc, TimerProc, TimerProc, ClickProc, ClickProc]
                             (close_start st))) cid = None)
   \<and> (channelsMap st cid = Some ch \<and> i_channelId i = cid
      \<and> isButton i \<and> customId i = ''close_ticket'' \<and> click_delete_r cenv = None \<longrightarrow>
      delete_calls (trace (run_close cenv cid i
                             [ClickProc, ClickProc, TimerProc, TimerProc, TimerProc]
                             (close_start st))) = 1
      \<and> channelsMap (bot (run_close cenv cid i
                             [ClickProc, ClickProc, TimerProc, TimerProc, TimerProc]
                             (close_start st))) cid = None)
   \<and> (isButton i \<and> customId i = ''close_ticket'' \<and> i_channelId i = cid
      \<and> (timer (run_close cenv cid i sched (close_start st)) = TimerDone
          \<or> click (run_close cenv cid i sched (close_start st)) = ClickDone) \<longrightarrow>
      1 \<le> delete_calls (trace (run_close cenv cid i sched (close_start st)))
      \<or> channelsMap (bot (run_close cenv cid i sched (close_start st))) cid = None)
   \<and> (channelsMap st cid = Some ch
      \<and> isButton i \<and> customId i = ''close_ticket'' \<and> i_channelId i = cid
      \<and> fetch_r cenv = Inr (Some fc)
      \<and> (timer (run_close cenv cid i sched (close_start st)) = TimerDone
          \<or> click (run_close cenv cid i sched (close_start st)) = ClickDone) \<longrightarrow>
      1 \<le> delete_calls (trace (run_close cenv cid i sched (close_start st))))
   \<and> deletion_records (trace (run_close cenv cid i sched (close_start st))) \<le> 1
   \<and> delete_calls (trace (run_close cenv cid i sched (close_start st))) \<le> 2"
proof -
  let ?end = "run_close cenv cid i sched (close_start st)"
  have timer_first: "channelsMap st cid = Some ch \<and> i_channelId i = cid
      \<and> fetch_r cenv = Inr (Some fc) \<longrightarrow>
      delete_calls (trace (run_close cenv cid i
                             [TimerProc, TimerProc, TimerProc, ClickProc, ClickProc]
                             (close_start st))) = 1
      \<and> deletion_records (trace (run_close cenv cid i
                             [TimerProc, TimerProc, TimerProc, ClickProc, ClickProc]
                             (close_start st)))
          = (if timer_delete_r cenv = None \<and> db_deletion cenv = None then 1 else 0)
      \<and> channelsMap (bot (run_close cenv cid i
                             [TimerProc, TimerProc, TimerProc, ClickProc, ClickProc]
                             (close_start st))) cid = None"
    using timer_first_once_any_delete[of st cid ch i cenv fc]
    by (simp del: run_close.simps)
  have click_first: "channelsMap st cid = Some ch \<and> i_channelId i = cid
      \<and> isButton i \<and> customId i = ''close_ticket'' \<and> click_delete_r cenv = None \<longrightarrow>
      delete_calls (trace (run_close cenv cid i
                             [ClickProc, ClickProc, TimerProc, TimerProc, TimerProc]
                             (close_start st))) = 1
      \<and> channelsMap (bot (run_close cenv cid i
                             [ClickProc, ClickProc, TimerProc, TimerProc, TimerProc]
                             (close_start st))) cid = None"
    using click_first_once[of st cid ch i cenv]
    by (simp del: run_close.simps)
  have never_zero: "isButton i \<and> customId i = ''close_ticket'' \<and> i_channelId i = cid
      \<and> (timer ?end = TimerDone \<or> click ?end = ClickDone) \<longrightarrow>
      1 \<le> delete_calls (trace ?end) \<or> channelsMap (bot ?end) cid = None"
  proof
    assume h: "isButton i \<and> customId i = ''close_ticket'' \<and> i_channelId i = cid
      \<and> (timer ?end = TimerDone \<or> click ?end = ClickDone)"
    have start: "1 \<le> delete_calls (trace (close_start st))
         \<or> channelsMap (bot (close_start st)) cid = None
         \<or> timer_deletes (timer (close_start st)) = 0
           \<and> click_deletes (click (close_start st)) = 0"
      by (simp add: close_start_def)
    from h run_close_never_zero[OF _ _ _ start, of i cenv sched]
    have "1 \<le> delete_calls (trace ?end) \<or> channelsMap (bot ?end) cid = None
         \<or> timer_deletes (timer ?end) = 0 \<and> click_deletes (click ?end) = 0"
      by auto
    with h ended_has_deleted[of ?end]
    show "1 \<le> delete_calls (trace ?end) \<or> channelsMap (bot ?end) cid = None"
      by auto
  qed
  have one_delete: "channelsMap st cid = Some ch
      \<and> isButton i \<and> customId i = ''close_ticket'' \<and> i_channelId i = cid
      \<and> fetch_r cenv = Inr (Some fc)
      \<and> (timer ?end = TimerDone \<or> click ?end = ClickDone) \<longrightarrow>
      1 \<le> delete_calls (trace ?end)"
  proof
    assume h: "channelsMap st cid = Some ch
      \<and> isButton i \<and> customId i = ''close_ticket'' \<and> i_channelId i = cid
      \<and> fetch_r cenv = Inr (Some fc)
      \<and> (timer ?end = TimerDone \<or> click ?end = ClickDone)"
    then have start: "1 \<le> delete_calls (trace (close_start st))
         \<or> channelsMap (bot (close_start st)) cid \<noteq> None
           \<and> timer_deletes (timer (close_start st)) = 0
           \<and> click_deletes (click (close_start st)) = 0"
      by (simp add: close_start_def)
    from h run_close_one_delete[OF _ _ _ _ start, of i cenv fc sched]
    have "1 \<le> delete_calls (trace ?end)
         \<or> channelsMap (bot ?end) cid \<noteq> None
           \<and> timer_deletes (timer ?end) = 0 \<and> click_deletes (click ?end) = 0"
      by auto
    with h ended_has_deleted[of ?end]
    show "1 \<le> delete_calls (trace ?end)"
      by auto
  qed
  from timer_first click_first never_zero one_delete
    run_close_at_most_one_record[of cenv cid i sched st]
    run_close_at_most_two_deletes[of cenv cid i sched st]
  show ?thesis by simp
qed

text \<open>
  The amended claim at the registered sample channel, on a platform that refuses the
  timer's delete: timer first, button first, and the interleaving of the
  counterexample.
\<close>

theorem close_once_without_interleaving_witness:
  "channelsMap sample_registered ''9001'' = Some sample_channel
   \<and> i_channelId sample_click = ''9001'' \<and> isButton sample_click
   \<and> customId sample_click = ''close_ticket''
   \<and> fetch_r sample_close_env = Inr (Some sample_channel)
   \<and> click_delete_r sample_close_env = None
   \<and> timer_delete_r sample_close_env = Some ''Unknown Channel''
   \<and> delete_calls (trace (run_close sample_close_env ''9001'' sample_click
                             [TimerProc, TimerProc, TimerProc, ClickProc, ClickProc]
                             (close_start sample_registered))) = 1
   \<and> deletion_records (trace (run_close sample_close_env ''9001'' sample_click
                             [TimerProc, TimerProc, TimerProc, ClickProc, ClickProc]
                             (close_start sample_registered))) = 0
   \<and> channelsMap (bot (run_close sample_close_env ''9001'' sample_click
                             [TimerProc, TimerProc, TimerProc, ClickProc, ClickProc]
                             (close_start sample_registered))) ''9001'' = None
   \<and> delete_calls (trace (run_close sample_close_env ''9001'' sample_click
                             [ClickProc, ClickProc, TimerProc, TimerProc, TimerProc]
                             (close_start sample_registered))) = 1
   \<and> channelsMap (bot (run_close sample_close_env ''9001'' sample_click
                             [ClickProc, ClickProc, TimerProc, TimerProc, TimerProc]
                             (close_start sample_registered))) ''9001'' = None
   \<and> timer (run_close sample_close_env ''9001'' sample_click
               [ClickProc, TimerProc, TimerProc, ClickProc, TimerProc]
               (close_start sample_registered)) = TimerDone
   \<and> 1 \<le> delete_calls (trace (run_close sample_close_env ''9001'' sample_click
                             [ClickProc, TimerProc, TimerProc, ClickProc, TimerProc]
                             (close_start sample_registered)))
   \<and> delete_calls (trace (run_close sample_close_env ''9001'' sample_click
                             [ClickProc, TimerProc, TimerProc, ClickProc, TimerProc]
                             (close_start sample_registered))) \<le> 2"
proof -
  have h: "channelsMap sample_registered ''9001'' = Some sample_channel"
    "i_channelId sample_click = ''9001''" "isButton sample_click"
    "customId sample_click = ''close_ticket''"
    "fetch_r sample_close_env = Inr (Some sample_channel)"
    "click_delete_r sample_close_env = None"
    "timer_delete_r sample_close_env = Some ''Unknown Channel''"
    by (simp_all add: sample_registered_def sample_click_def sample_close_env_def)
  have ended: "timer (run_close sample_close_env ''9001'' sample_click
               [ClickProc, TimerProc, TimerProc, ClickProc, TimerProc]
               (close_start sample_registered)) = TimerDone"
    by (simp add: close_start_def timer_step_def click_step_def unregister_def
        sample_registered_def sample_close_env_def sample_click_def sample_channel_def)
  note sequential = close_once_without_interleaving
    [where st = sample_registered and cid = "''9001''" and ch = sample_channel
       and i = sample_click and cenv = sample_close_env
       and fc = sample_channel and sched = "[]"]
  note interleaved = close_once_without_interleaving
    [where st = sample_registered and cid = "''9001''" and ch = sample_channel
       and i = sample_click and cenv = sample_close_env
       and fc = sample_channel
       and sched = "[ClickProc, TimerProc, TimerProc, ClickProc, TimerProc]"]
  have seq: "delete_calls (trace (run_close sample_close_env ''9001'' sample_click
                             [TimerProc, TimerProc, TimerProc, ClickProc, ClickProc]
                             (close_start sample_registered))) = 1
   \<and> deletion_records (trace (run_close sample_close_env ''9001'' sample_click
                             [TimerProc, TimerProc, TimerProc, ClickProc, ClickProc]
                             (close_start sample_registered))) = 0
   \<and> channelsMap (bot (run_close sample_close_env ''9001'' sample_click
                             [TimerProc, TimerProc, TimerProc, ClickProc, ClickProc]
                             (close_start sample_registered))) ''9001'' = None
   \<and> delete_calls (trace (run_close sample_close_env ''9001'' sample_click
                             [ClickProc, ClickProc, TimerProc, TimerProc, TimerProc]
                             (close_start sample_registered))) = 1
   \<and> channelsMap (bot (run_close sample_close_env ''9001'' sample_click
                             [ClickProc, ClickProc, TimerProc, TimerProc, TimerProc]
                             (close_start sample_registered))) ''9001'' = None"
    using sequential h by (simp del: run_close.simps)
  have inter: "1 \<le> delete_calls (trace (run_close sample_close_env ''9001'' sample_click
                             [ClickProc, TimerProc, TimerProc, ClickProc, TimerProc]
                             (close_start sample_registered)))
   \<and> delete_calls (trace (run_close sample_close_env ''9001'' sample_click
                             [ClickProc, TimerProc, TimerProc, ClickProc, TimerProc]
                             (close_start sample_registered))) \<le> 2"
    using interleaved h ended by (simp del: run_close.simps)
  from h ended seq inter show ?thesis by (simp del: run_close.simps)
qed

lemma timer_step_unregisters:
  "timer sys = TimerDone \<longrightarrow> channelsMap (bot sys) cid = None \<Longrightarrow>
     timer (timer_step cenv cid sys) = TimerDone \<longrightarrow>
       channelsMap (bot (timer_step cenv cid sys)) cid = None"
  by (cases "timer sys")
     (auto simp: timer_step_def unregister_def split: sum.splits option.splits)

lemma click_step_keeps_unregistered:
  "timer sys = TimerDone \<longrightarrow> channelsMap (bot sys) cid = None \<Longrightarrow>
     timer (click_step cenv i sys) = TimerDone \<longrightarrow>
       channelsMap (bot (click_step cenv i sys)) cid = None"
  by (cases "click sys")
     (auto simp: click_step_def unregister_def split: option.splits)

lemma run_close_timer_done_unregistered:
  "timer sys = TimerDone \<longrightarrow> channelsMap (bot sys) cid = None \<Longrightarrow>
     timer (run_close cenv cid i sched sys) = TimerDone \<longrightarrow>
       channelsMap (bot (run_close cenv cid i sched sys)) cid = None"
proof (induction sched arbitrary: sys)
  case Nil
  then show ?case by simp
next
  case (Cons p ps)
  show ?case
  proof (cases p)
    case TimerProc
    from Cons.IH[OF timer_step_unregisters[OF Cons.prems, of cenv]] TimerProc
    show ?thesis by simp
  next
    case ClickProc
    from Cons.IH[OF click_step_keeps_unregistered[OF Cons.prems, of cenv i]] ClickProc
    show ?thesis by simp
  qed
qed

lemma click_error_keeps_state:
  "click_delete_r cenv = Some e \<Longrightarrow> bot (interactionCreate cenv i sys) = bot sys"
  by (cases "click sys")
     (auto simp: interactionCreate_def click_step_def split: option.splits)

lemma timer_callback_unregisters:
  "timer sys = TimerScheduled \<Longrightarrow>
     channelsMap (bot (timer_callback cenv cid sys)) cid = None
     \<and> timer (timer_callback cenv cid sys) = TimerDone"
  by (auto simp: timer_callback_def timer_step_def unregister_def
      split: sum.splits option.splits)

text \<open>
  Claim C10. The two close paths differ when the platform delete fails. In the button
  handler the failure leaves the state as it was, the registry entry included: only the
  error is logged. The timer callback unregisters the channel in its \<^verbatim>\<open>finally\<close> block
  on every way out, so once the timer callback has ended the channel is unregistered
  whether or not the delete succeeded, in every interleaving with the button handler.
\<close>

theorem close_paths_differ_on_error:
  "(click_delete_r cenv = Some e \<longrightarrow> bot (interactionCreate cenv i sys) = bot sys)
   \<and> (click sys = ClickPending \<and> isButton i \<and> customId i = ''close_ticket''
       \<and> channelsMap (bot sys) (i_channelId i) = Some ch \<and> click_delete_r cenv = Some e \<longrightarrow>
       trace (interactionCreate cenv i sys)
         = trace sys @ [ChannelDelete (ch_id ch),
                        ConsoleError (''Error deleting channel by interaction: '' @ e)]
       \<and> channelsMap (bot (interactionCreate cenv i sys)) (i_channelId i) = Some ch)
   \<and> (timer sys = TimerScheduled \<longrightarrow>
       channelsMap (bot (timer_callback cenv cid sys)) cid = None
       \<and> timer (timer_callback cenv cid sys) = TimerDone)
   \<and> (timer sys = TimerScheduled \<and> channelsMap (bot sys) cid = Some ch
       \<and> fetch_r cenv = Inr (Some fc) \<and> timer_delete_r cenv = Some e \<longrightarrow>
       trace (timer_callback cenv cid sys)
         = trace sys @ [ChannelsFetch cid, ChannelDelete (ch_id fc),
                        ConsoleError (''Error during automatic channel deletion: '' @ e)]
       \<and> channelsMap (bot (timer_callback cenv cid sys)) cid = None)
   \<and> (timer (run_close cenv cid i sched (close_start st)) = TimerDone \<longrightarrow>
       channelsMap (bot (run_close cenv cid i sched (close_start st))) cid = None)"
proof -
  have a: "click_delete_r cenv = Some e \<longrightarrow> bot (interactionCreate cenv i sys) = bot sys"
    by (simp add: click_error_keeps_state)
  have b: "click sys = ClickPending \<and> isButton i \<and> customId i = ''close_ticket''
       \<and> channelsMap (bot sys) (i_channelId i) = Some ch \<and> click_delete_r cenv = Some e \<longrightarrow>
       trace (interactionCreate cenv i sys)
         = trace sys @ [ChannelDelete (ch_id ch),
                        ConsoleError (''Error deleting channel by interaction: '' @ e)]
       \<and> channelsMap (bot (interactionCreate cenv i sys)) (i_channelId i) = Some ch"
    by (simp add: interactionCreate_def click_step_def)
  have c: "timer sys = TimerScheduled \<longrightarrow>
       channelsMap (bot (timer_callback cenv cid sys)) cid = None
       \<and> timer (timer_callback cenv cid sys) = TimerDone"
    using timer_callback_unregisters[of sys cenv cid] by blast
  have d: "timer sys = TimerScheduled \<and> channelsMap (bot sys) cid = Some ch
       \<and> fetch_r cenv = Inr (Some fc) \<and> timer_delete_r cenv = Some e \<longrightarrow>
       trace (timer_callback cenv cid sys)
         = trace sys @ [ChannelsFetch cid, ChannelDelete (ch_id fc),
                        ConsoleError (''Error during automatic channel deletion: '' @ e)]
       \<and> channelsMap (bot (timer_callback cenv cid sys)) cid = None"
    by (simp add: timer_callback_def timer_step_def unregister_def)
  have e: "timer (run_close cenv cid i sched (close_start st)) = TimerDone \<longrightarrow>
       channelsMap (bot (run_close cenv cid i sched (close_start st))) cid = None"
    by (rule run_close_timer_done_unregistered) (simp add: close_start_def)
  from a b c d e show ?thesis by blast
qed

text \<open>
  The theorem at the registered sample channel: the button's delete refused for missing
  permissions, the timer's delete refused for an unknown channel.
\<close>

theorem close_paths_differ_on_error_witness:
  "click (close_start sample_registered) = ClickPending
   \<and> timer (close_start sample_registered) = TimerScheduled
   \<and> isButton sample_click \<and> customId sample_click = ''close_ticket''
   \<and> channelsMap (bot (close_start sample_registered)) (i_channelId sample_click)
       = Some sample_channel
   \<and> click_delete_r (sample_close_env\<lparr>click_delete_r := Some ''Missing Permissions''\<rparr>)
       = Some ''Missing Permissions''
   \<and> trace (interactionCreate (sample_close_env\<lparr>click_delete_r := Some ''Missing Permissions''\<rparr>)
               sample_click (close_start sample_registered))
       = [ChannelDelete ''9001'',
          ConsoleError ''Error deleting channel by interaction: Missing Permissions'']
   \<and> channelsMap (bot (interactionCreate
                          (sample_close_env\<lparr>click_delete_r := Some ''Missing Permissions''\<rparr>)
                          sample_click (close_start sample_registered))) ''9001''
       = Some sample_channel
   \<and> fetch_r sample_close_env = Inr (Some sample_channel)
   \<and> timer_delete_r sample_close_env = Some ''Unknown Channel''
   \<and> trace (timer_callback sample_close_env ''9001'' (close_start sample_registered))
       = [ChannelsFetch ''9001'', ChannelDelete ''9001'',
          ConsoleError ''Error during automatic channel deletion: Unknown Channel'']
   \<and> channelsMap (bot (timer_callback sample_close_env ''9001''
                          (close_start sample_registered))) ''9001'' = None"
proof -
  have h: "click (close_start sample_registered) = ClickPending"
    "timer (close_start sample_registered) = TimerScheduled"
    "isButton sample_click" "customId sample_click = ''close_ticket''"
    "i_channelId sample_click = ''9001''"
    "channelsMap (bot (close_start sample_registered)) ''9001'' = Some sample_channel"
    "trace (close_start sample_registered) = []"
    "fetch_r sample_close_env = Inr (Some sample_channel)"
    "timer_delete_r sample_close_env = Some ''Unknown Channel''"
    "ch_id sample_channel = ''9001''"
    by (simp_all add: close_start_def sample_registered_def sample_click_def
        sample_close_env_def sample_channel_def)
  note click_fails = close_paths_differ_on_error
    [where sys = "close_start sample_registered" and i = sample_click
       and cenv = "sample_close_env\<lparr>click_delete_r := Some ''Missing Permissions''\<rparr>"
       and e = "''Missing Permissions''" and ch = sample_channel]
  note timer_fails = close_paths_differ_on_error
    [where sys = "close_start sample_registered" and cid = "''9001''"
       and cenv = sample_close_env and e = "''Unknown Channel''" and ch = sample_channel
       and fc = sample_channel]
  from click_fails timer_fails h show ?thesis by simp
qed

section \<open>Thread binding\<close>

lemma resolve_thread_bound:
  "threadMap st c = Some t \<Longrightarrow> t \<noteq> [] \<Longrightarrow> resolve_thread created st c = (Inr t, [], st)"
  by (simp add: resolve_thread_def getOpenAiThreadId_def)

lemma resolve_thread_binds:
  "resolve_thread created st c = (Inr t, effs, st1) \<Longrightarrow> threadMap st1 c = Some t"
  by (auto simp: resolve_thread_def getOpenAiThreadId_def addThreadToMap_def
      split: option.splits sum.splits if_splits)

lemma resolve_thread_other:
  "resolve_thread created st c' = (r, effs, st') \<Longrightarrow> c' \<noteq> c \<Longrightarrow>
     threadMap st' c = threadMap st c"
  by (auto simp: resolve_thread_def getOpenAiThreadId_def addThreadToMap_def
      split: option.splits sum.splits if_splits)

lemma resolve_seq_stable:
  assumes "threadMap st c = Some t" and "t \<noteq> []" and "resolve_seq st calls = (rs, st')"
  shows "threadMap st' c = Some t \<and> length rs = length calls
       \<and> (\<forall>k < length calls. fst (calls ! k) = c \<longrightarrow> rs ! k = (Inr t, []))"
  using assms
proof (induction calls arbitrary: st rs st')
  case Nil
  then show ?case by simp
next
  case (Cons call calls)
  obtain c' created where call: "call = (c', created)" by (cases call) auto
  obtain r effs st1 where R: "resolve_thread created st c' = (r, effs, st1)"
    by (cases "resolve_thread created st c'") auto
  obtain rs' st2 where S: "resolve_seq st1 calls = (rs', st2)"
    by (cases "resolve_seq st1 calls") auto
  from Cons.prems(3) call R S have rs: "rs = (r, effs) # rs'" and st': "st' = st2"
    by simp_all
  have bound: "threadMap st1 c = Some t \<and> (c' = c \<longrightarrow> r = Inr t \<and> effs = [])"
  proof (cases "c' = c")
    case True
    with R resolve_thread_bound[OF Cons.prems(1) Cons.prems(2), of created]
    show ?thesis using Cons.prems(1) by simp
  next
    case False
    with resolve_thread_other[OF R False] Cons.prems(1) show ?thesis by simp
  qed
  from Cons.IH[OF _ Cons.prems(2) S] bound
  have ih: "threadMap st2 c = Some t \<and> length rs' = length calls
       \<and> (\<forall>k < length calls. fst (calls ! k) = c \<longrightarrow> rs' ! k = (Inr t, []))"
    by simp
  show ?case
  proof (intro conjI allI impI)
    show "threadMap st' c = Some t" using ih st' by simp
    show "length rs = length (call # calls)" using ih rs by simp
    fix k assume k: "k < length (call # calls)" and kc: "fst ((call # calls) ! k) = c"
    show "rs ! k = (Inr t, [])"
    proof (cases k)
      case 0
      with kc call bound rs show ?thesis by simp
    next
      case (Suc j)
      with k kc ih rs show ?thesis by simp
    qed
  qed
qed

lemma resolve_steps_are_resolve_thread:
  assumes "k < length (handlers sys)" and "handlers sys ! k = (c, ResolveStart)"
    and "backend sys = created # rest"
  shows "rbot (run_resolve [k, k] sys) = snd (snd (resolve_thread created (rbot sys) c))"
    and "handlers (run_resolve [k, k] sys) ! k
           = (c, ResolveDone (fst (resolve_thread created (rbot sys) c)))"
    and "rtrace (run_resolve [k, k] sys)
           = rtrace sys @ fst (snd (resolve_thread created (rbot sys) c))"
  using assms
  by (auto simp: resolve_step_def resolve_thread_def split: option.splits sum.splits)

lemma in_set_updateD: "z \<in> set (xs[j := y]) \<Longrightarrow> z = y \<or> z \<in> set xs"
  using set_update_subset_insert[of xs j y] by auto

lemma resolve_step_length: "length (handlers (resolve_step j sys)) = length (handlers sys)"
  by (auto simp: resolve_step_def split: prod.splits resolve_pc.splits option.splits
      list.splits sum.splits)

lemma resolve_step_bound:
  assumes bound: "threadMap (rbot sys) c = Some t" and ne: "t \<noteq> []"
    and idle: "(c, ResolveAwaitCreate) \<notin> set (handlers sys)"
  shows "threadMap (rbot (resolve_step j sys)) c = Some t"
    and "(c, ResolveAwaitCreate) \<notin> set (handlers (resolve_step j sys))"
    and "k < length (handlers sys) \<Longrightarrow> fst (handlers sys ! k) = c \<Longrightarrow>
           handlers (resolve_step j sys) ! k = handlers sys ! k
           \<or> handlers sys ! k = (c, ResolveStart)
             \<and> handlers (resolve_step j sys) ! k = (c, ResolveDone (Inr t))"
    and "j < length (handlers sys) \<Longrightarrow> handlers sys ! j = (c, ResolveStart) \<Longrightarrow>
           handlers (resolve_step j sys) ! j = (c, ResolveDone (Inr t))"
    and "k \<noteq> j \<Longrightarrow> handlers (resolve_step j sys) ! k = handlers sys ! k"
    and "j < length (handlers sys) \<Longrightarrow> fst (handlers sys ! j) = c \<Longrightarrow>
           rtrace (resolve_step j sys) = rtrace sys"
proof -
  show "k \<noteq> j \<Longrightarrow> handlers (resolve_step j sys) ! k = handlers sys ! k"
    by (auto simp: resolve_step_def split: prod.splits resolve_pc.splits option.splits
        list.splits sum.splits)
  show "j < length (handlers sys) \<Longrightarrow> handlers sys ! j = (c, ResolveStart) \<Longrightarrow>
           handlers (resolve_step j sys) ! j = (c, ResolveDone (Inr t))"
    using bound ne by (simp add: resolve_step_def getOpenAiThreadId_def)
  have waiting_other: "c' \<noteq> c" if "j < length (handlers sys)"
    and "handlers sys ! j = (c', ResolveAwaitCreate)" for c'
    using that idle nth_mem[of j "handlers sys"] by auto
  show "threadMap (rbot (resolve_step j sys)) c = Some t"
  proof (cases "j < length (handlers sys)")
    case False
    then show ?thesis using bound by (simp add: resolve_step_def)
  next
    case True
    obtain c' pc where e: "handlers sys ! j = (c', pc)" by (cases "handlers sys ! j") auto
    show ?thesis
    proof (cases pc)
      case ResolveAwaitCreate
      with waiting_other[OF True] e have "c' \<noteq> c" by simp
      with True e ResolveAwaitCreate bound show ?thesis
        by (auto simp: resolve_step_def addThreadToMap_def split: list.splits sum.splits)
    qed (use True e bound in \<open>auto simp: resolve_step_def split: option.splits\<close>)
  qed
  show "(c, ResolveAwaitCreate) \<notin> set (handlers (resolve_step j sys))"
  proof (cases "j < length (handlers sys)")
    case False
    then show ?thesis using idle by (simp add: resolve_step_def)
  next
    case True
    obtain c' pc where e: "handlers sys ! j = (c', pc)" by (cases "handlers sys ! j") auto
    show ?thesis
    proof (cases "c' = c")
      case same: True
      with True e idle bound ne show ?thesis
        by (cases pc)
           (auto simp: resolve_step_def getOpenAiThreadId_def
              split: list.splits sum.splits dest!: in_set_updateD)
    next
      case other: False
      with True e idle show ?thesis
        by (cases pc)
           (auto simp: resolve_step_def split: option.splits list.splits sum.splits
              dest!: in_set_updateD)
    qed
  qed
  show "handlers (resolve_step j sys) ! k = handlers sys ! k
           \<or> handlers sys ! k = (c, ResolveStart)
             \<and> handlers (resolve_step j sys) ! k = (c, ResolveDone (Inr t))"
    if k: "k < length (handlers sys)" and kc: "fst (handlers sys ! k) = c"
  proof (cases "k = j")
    case False
    then show ?thesis
      by (auto simp: resolve_step_def split: prod.splits resolve_pc.splits option.splits
          list.splits sum.splits)
  next
    case True
    obtain pc where e: "handlers sys ! j = (c, pc)"
      using kc True by (cases "handlers sys ! j") auto
    have "pc \<noteq> ResolveAwaitCreate"
      using e idle nth_mem[of j "handlers sys"] k True by auto
    with e k True bound ne show ?thesis
      by (cases pc) (auto simp: resolve_step_def getOpenAiThreadId_def)
  qed
  show "rtrace (resolve_step j sys) = rtrace sys"
    if j: "j < length (handlers sys)" and jc: "fst (handlers sys ! j) = c"
  proof -
    obtain pc where e: "handlers sys ! j = (c, pc)"
      using jc by (cases "handlers sys ! j") auto
    have "pc \<noteq> ResolveAwaitCreate"
      using e idle nth_mem[of j "handlers sys"] j by auto
    with e j bound ne show ?thesis
      by (cases pc) (auto simp: resolve_step_def getOpenAiThreadId_def)
  qed
qed

lemma run_resolve_length: "length (handlers (run_resolve ks sys)) = length (handlers sys)"
  by (induction ks arbitrary: sys) (simp_all add: resolve_step_length)

lemma run_resolve_bound:
  assumes "threadMap (rbot sys) c = Some t" and "t \<noteq> []"
    and "(c, ResolveAwaitCreate) \<notin> set (handlers sys)"
  shows "threadMap (rbot (run_resolve ks sys)) c = Some t
       \<and> (c, ResolveAwaitCreate) \<notin> set (handlers (run_resolve ks sys))
       \<and> (\<forall>k < length (handlers sys). fst (handlers sys ! k) = c \<longrightarrow>
            handlers (run_resolve ks sys) ! k = handlers sys ! k
            \<or> handlers sys ! k = (c, ResolveStart)
              \<and> handlers (run_resolve ks sys) ! k = (c, ResolveDone (Inr t)))
       \<and> (\<forall>k < length (handlers sys). k \<in> set ks \<longrightarrow> handlers sys ! k = (c, ResolveStart) \<longrightarrow>
            handlers (run_resolve ks sys) ! k = (c, ResolveDone (Inr t)))"
  using assms
proof (induction ks arbitrary: sys)
  case Nil
  then show ?case by simp
next
  case (Cons j js)
  let ?s = "resolve_step j sys"
  note step = resolve_step_bound[OF Cons.prems, where j = j]
  have len: "length (handlers ?s) = length (handlers sys)"
    by (rule resolve_step_length)
  from Cons.IH[OF step(1) Cons.prems(2) step(2)]
  have ih: "threadMap (rbot (run_resolve js ?s)) c = Some t"
    "(c, ResolveAwaitCreate) \<notin> set (handlers (run_resolve js ?s))"
    "\<forall>k < length (handlers sys). fst (handlers ?s ! k) = c \<longrightarrow>
            handlers (run_resolve js ?s) ! k = handlers ?s ! k
            \<or> handlers ?s ! k = (c, ResolveStart)
              \<and> handlers (run_resolve js ?s) ! k = (c, ResolveDone (Inr t))"
    "\<forall>k < length (handlers sys). k \<in> set js \<longrightarrow> handlers ?s ! k = (c, ResolveStart) \<longrightarrow>
            handlers (run_resolve js ?s) ! k = (c, ResolveDone (Inr t))"
    by (simp_all add: len)
  have keep: "handlers (run_resolve js ?s) ! k = handlers sys ! k
            \<or> handlers sys ! k = (c, ResolveStart)
              \<and> handlers (run_resolve js ?s) ! k = (c, ResolveDone (Inr t))"
    if k: "k < length (handlers sys)" and kc: "fst (handlers sys ! k) = c" for k
  proof -
    from step(3)[OF k kc] have s1: "handlers ?s ! k = handlers sys ! k
           \<or> handlers sys ! k = (c, ResolveStart)
             \<and> handlers ?s ! k = (c, ResolveDone (Inr t))" .
    then have "fst (handlers ?s ! k) = c" using kc by auto
    with ih(3) k have s2: "handlers (run_resolve js ?s) ! k = handlers ?s ! k
            \<or> handlers ?s ! k = (c, ResolveStart)
              \<and> handlers (run_resolve js ?s) ! k = (c, ResolveDone (Inr t))" by blast
    from s1 s2 show ?thesis by auto
  qed
  have ran: "handlers (run_resolve js ?s) ! k = (c, ResolveDone (Inr t))"
    if k: "k < length (handlers sys)" and kin: "k \<in> set (j # js)"
      and ks: "handlers sys ! k = (c, ResolveStart)" for k
  proof (cases "k = j")
    case True
    with step(4) k ks have d: "handlers ?s ! k = (c, ResolveDone (Inr t))" by simp
    with ih(3) k show ?thesis by auto
  next
    case False
    with kin have "k \<in> set js" by simp
    moreover from step(5)[OF False] ks have "handlers ?s ! k = (c, ResolveStart)" by simp
    ultimately show ?thesis using ih(4) k by blast
  qed
  from ih(1) ih(2) keep ran show ?case by simp
qed

lemma resolve_race:
  assumes "a < length (handlers sys)" and "b < length (handlers sys)" and "a \<noteq> b"
    and "handlers sys ! a = (c, ResolveStart)" and "handlers sys ! b = (c, ResolveStart)"
    and "threadMap (rbot sys) c = None"
    and "backend sys = Inr t1 # Inr t2 # rest"
  shows "handlers (run_resolve [a, b, a, b] sys) ! a = (c, ResolveDone (Inr t1))"
    and "handlers (run_resolve [a, b, a, b] sys) ! b = (c, ResolveDone (Inr t2))"
    and "rtrace (run_resolve [a, b, a, b] sys) = rtrace sys @ [ThreadsCreate, ThreadsCreate]"
    and "threadMap (rbot (run_resolve [a, b, a] sys)) c = Some t1"
    and "threadMap (rbot (run_resolve [a, b, a, b] sys)) c = Some t2"
  using assms
  by (simp_all add: resolve_step_def getOpenAiThreadId_def addThreadToMap_def)

lemma resolve_step_conversation:
  "fst (handlers (resolve_step j sys) ! k) = fst (handlers sys ! k)"
proof (cases "k = j")
  case False
  then show ?thesis
    by (auto simp: resolve_step_def split: prod.splits resolve_pc.splits option.splits
        list.splits sum.splits)
next
  case True
  then show ?thesis
    by (cases "j < length (handlers sys)")
       (auto simp: resolve_step_def split: prod.splits resolve_pc.splits option.splits
          list.splits sum.splits)
qed

lemma run_resolve_no_create:
  assumes "threadMap (rbot sys) c = Some t" and "t \<noteq> []"
    and "(c, ResolveAwaitCreate) \<notin> set (handlers sys)"
    and "\<forall>j \<in> set ks. j < length (handlers sys) \<and> fst (handlers sys ! j) = c"
  shows "rtrace (run_resolve ks sys) = rtrace sys"
  using assms
proof (induction ks arbitrary: sys)
  case Nil
  then show ?case by simp
next
  case (Cons j js)
  let ?s = "resolve_step j sys"
  note step = resolve_step_bound[OF Cons.prems(1-3), where j = j]
  have "\<forall>k \<in> set js. k < length (handlers ?s) \<and> fst (handlers ?s ! k) = c"
    using Cons.prems(4) by (simp add: resolve_step_length resolve_step_conversation)
  from Cons.IH[OF step(1) Cons.prems(2) step(2) this] step(6) Cons.prems(4)
  show ?case by simp
qed

text \<open>
  Claim C2 says that after the first lookup-or-create for a conversation has completed
  every later one returns the same thread id, and that no conversation is ever bound to
  two backend threads, also when two messages for an unbound conversation interleave.
  The script records the binding only after \<^verbatim>\<open>await openai.beta.threads.create()\<close>, so
  two handlers that both looked the conversation up before either binding was recorded
  each create a thread: the first to finish returns \<^verbatim>\<open>thread_1\<close>, the second replaces
  the binding with \<^verbatim>\<open>thread_2\<close>, and a third handler then gets \<^verbatim>\<open>thread_2\<close>.
\<close>

theorem thread_binding_race_counterexample:
  "handlers (run_resolve [0, Suc 0, 0, Suc 0, Suc (Suc 0)] sample_resolve_sys)
     = [(''9001'', ResolveDone (Inr ''thread_1'')),
        (''9001'', ResolveDone (Inr ''thread_2'')),
        (''9001'', ResolveDone (Inr ''thread_2''))]
   \<and> rtrace (run_resolve [0, Suc 0, 0, Suc 0, Suc (Suc 0)] sample_resolve_sys)
       = [ThreadsCreate, ThreadsCreate]
   \<and> threadMap (rbot (run_resolve [0, Suc 0, 0] sample_resolve_sys)) ''9001''
       = Some ''thread_1''
   \<and> threadMap (rbot (run_resolve [0, Suc 0, 0, Suc 0, Suc (Suc 0)] sample_resolve_sys)) ''9001''
       = Some ''thread_2''"
  by (simp add: resolve_step_def sample_resolve_sys_def sample_state_def
      getOpenAiThreadId_def addThreadToMap_def)

text \<open>
  Claim C2, as amended. Once conversation \<open>c\<close> is bound to a non-empty thread id \<open>t\<close>
  and no handler for \<open>c\<close> is waiting for a \<^verbatim>\<open>threads.create\<close>, then under every schedule
  \<open>c\<close> stays bound to \<open>t\<close>, every handler for \<open>c\<close> that runs its lookup gets \<open>t\<close>, and
  the handlers for \<open>c\<close> create no thread; in particular lookup-or-create calls that do
  not overlap all return the id the first of them returned, whatever calls for other
  conversations come in between. When two handlers for an unbound conversation both run
  their lookup before either has recorded a binding, each creates a backend thread: the
  first to finish returns and binds the first id, and the second returns its own id and
  replaces the binding with it.
\<close>

theorem thread_binding_stable_once_bound:
  "(threadMap (rbot sys) c = Some t \<and> t \<noteq> []
      \<and> (c, ResolveAwaitCreate) \<notin> set (handlers sys) \<longrightarrow>
      threadMap (rbot (run_resolve ks sys)) c = Some t
      \<and> (c, ResolveAwaitCreate) \<notin> set (handlers (run_resolve ks sys))
      \<and> (k < length (handlers sys) \<and> fst (handlers sys ! k) = c \<longrightarrow>
           handlers (run_resolve ks sys) ! k = handlers sys ! k
           \<or> handlers sys ! k = (c, ResolveStart)
             \<and> handlers (run_resolve ks sys) ! k = (c, ResolveDone (Inr t)))
      \<and> (k < length (handlers sys) \<and> k \<in> set ks
           \<and> handlers sys ! k = (c, ResolveStart) \<longrightarrow>
           handlers (run_resolve ks sys) ! k = (c, ResolveDone (Inr t)))
      \<and> ((\<forall>j \<in> set ks. j < length (handlers sys) \<and> fst (handlers sys ! j) = c) \<longrightarrow>
           rtrace (run_resolve ks sys) = rtrace sys))
   \<and> (resolve_thread created st c = (Inr t, effs, st1) \<and> t \<noteq> []
      \<and> resolve_seq st1 calls = (rs, st2) \<longrightarrow>
      threadMap st1 c = Some t \<and> threadMap st2 c = Some t \<and> length rs = length calls
      \<and> (\<forall>k < length calls. fst (calls ! k) = c \<longrightarrow> rs ! k = (Inr t, [])))
   \<and> (n < length (handlers sys) \<and> handlers sys ! n = (c, ResolveStart)
      \<and> backend sys = created # rest \<longrightarrow>
      rbot (run_resolve [n, n] sys) = snd (snd (resolve_thread created (rbot sys) c))
      \<and> handlers (run_resolve [n, n] sys) ! n
          = (c, ResolveDone (fst (resolve_thread created (rbot sys) c)))
      \<and> rtrace (run_resolve [n, n] sys)
          = rtrace sys @ fst (snd (resolve_thread created (rbot sys) c)))
   \<and> (a < length (handlers sys) \<and> b < length (handlers sys) \<and> a \<noteq> b
      \<and> handlers sys ! a = (c, ResolveStart) \<and> handlers sys ! b = (c, ResolveStart)
      \<and> threadMap (rbot sys) c = None \<and> backend sys = Inr t1 # Inr t2 # rest \<longrightarrow>
      handlers (run_resolve [a, b, a, b] sys) ! a = (c, ResolveDone (Inr t1))
      \<and> handlers (run_resolve [a, b, a, b] sys) ! b = (c, ResolveDone (Inr t2))
      \<and> rtrace (run_resolve [a, b, a, b] sys) = rtrace sys @ [ThreadsCreate, ThreadsCreate]
      \<and> threadMap (rbot (run_resolve [a, b, a] sys)) c = Some t1
      \<and> threadMap (rbot (run_resolve [a, b, a, b] sys)) c = Some t2)"
proof -
  have stable: "threadMap (rbot sys) c = Some t \<and> t \<noteq> []
      \<and> (c, ResolveAwaitCreate) \<notin> set (handlers sys) \<longrightarrow>
      threadMap (rbot (run_resolve ks sys)) c = Some t
      \<and> (c, ResolveAwaitCreate) \<notin> set (handlers (run_resolve ks sys))
      \<and> (k < length (handlers sys) \<and> fst (handlers sys ! k) = c \<longrightarrow>
           handlers (run_resolve ks sys) ! k = handlers sys ! k
           \<or> handlers sys ! k = (c, ResolveStart)
             \<and> handlers (run_resolve ks sys) ! k = (c, ResolveDone (Inr t)))
      \<and> (k < length (handlers sys) \<and> k \<in> set ks
           \<and> handlers sys ! k = (c, ResolveStart) \<longrightarrow>
           handlers (run_resolve ks sys) ! k = (c, ResolveDone (Inr t)))
      \<and> ((\<forall>j \<in> set ks. j < length (handlers sys) \<and> fst (handlers sys ! j) = c) \<longrightarrow>
           rtrace (run_resolve ks sys) = rtrace sys)"
  proof
    assume h: "threadMap (rbot sys) c = Some t \<and> t \<noteq> []
      \<and> (c, ResolveAwaitCreate) \<notin> set (handlers sys)"
    then have h1: "threadMap (rbot sys) c = Some t" and h2: "t \<noteq> []"
      and h3: "(c, ResolveAwaitCreate) \<notin> set (handlers sys)"
      by simp_all
    from run_resolve_bound[OF h1 h2 h3, of ks] run_resolve_no_create[OF h1 h2 h3, of ks]
    show "threadMap (rbot (run_resolve ks sys)) c = Some t
      \<and> (c, ResolveAwaitCreate) \<notin> set (handlers (run_resolve ks sys))
      \<and> (k < length (handlers sys) \<and> fst (handlers sys ! k) = c \<longrightarrow>
           handlers (run_resolve ks sys) ! k = handlers sys ! k
           \<or> handlers sys ! k = (c, ResolveStart)
             \<and> handlers (run_resolve ks sys) ! k = (c, ResolveDone (Inr t)))
      \<and> (k < length (handlers sys) \<and> k \<in> set ks
           \<and> handlers sys ! k = (c, ResolveStart) \<longrightarrow>
           handlers (run_resolve ks sys) ! k = (c, ResolveDone (Inr t)))
      \<and> ((\<forall>j \<in> set ks. j < length (handlers sys) \<and> fst (handlers sys ! j) = c) \<longrightarrow>
           rtrace (run_resolve ks sys) = rtrace sys)"
      by blast
  qed
  have seq: "resolve_thread created st c = (Inr t, effs, st1) \<and> t \<noteq> []
      \<and> resolve_seq st1 calls = (rs, st2) \<longrightarrow>
      threadMap st1 c = Some t \<and> threadMap st2 c = Some t \<and> length rs = length calls
      \<and> (\<forall>k < length calls. fst (calls ! k) = c \<longrightarrow> rs ! k = (Inr t, []))"
  proof
    assume h: "resolve_thread created st c = (Inr t, effs, st1) \<and> t \<noteq> []
      \<and> resolve_seq st1 calls = (rs, st2)"
    then have b: "threadMap st1 c = Some t"
      using resolve_thread_binds by blast
    from resolve_seq_stable[OF b, of calls rs st2] h b
    show "threadMap st1 c = Some t \<and> threadMap st2 c = Some t \<and> length rs = length calls
      \<and> (\<forall>k < length calls. fst (calls ! k) = c \<longrightarrow> rs ! k = (Inr t, []))"
      by blast
  qed
  have steps: "n < length (handlers sys) \<and> handlers sys ! n = (c, ResolveStart)
      \<and> backend sys = created # rest \<longrightarrow>
      rbot (run_resolve [n, n] sys) = snd (snd (resolve_thread created (rbot sys) c))
      \<and> handlers (run_resolve [n, n] sys) ! n
          = (c, ResolveDone (fst (resolve_thread created (rbot sys) c)))
      \<and> rtrace (run_resolve [n, n] sys)
          = rtrace sys @ fst (snd (resolve_thread created (rbot sys) c))"
    using resolve_steps_are_resolve_thread[of n sys c created rest] by blast
  have race: "a < length (handlers sys) \<and> b < length (handlers sys) \<and> a \<noteq> b
      \<and> handlers sys ! a = (c, ResolveStart) \<and> handlers sys ! b = (c, ResolveStart)
      \<and> threadMap (rbot sys) c = None \<and> backend sys = Inr t1 # Inr t2 # rest \<longrightarrow>
      handlers (run_resolve [a, b, a, b] sys) ! a = (c, ResolveDone (Inr t1))
      \<and> handlers (run_resolve [a, b, a, b] sys) ! b = (c, ResolveDone (Inr t2))
      \<and> rtrace (run_resolve [a, b, a, b] sys) = rtrace sys @ [ThreadsCreate, ThreadsCreate]
      \<and> threadMap (rbot (run_resolve [a, b, a] sys)) c = Some t1
      \<and> threadMap (rbot (run_resolve [a, b, a, b] sys)) c = Some t2"
    using resolve_race[of a sys b c t1 t2 rest] by blast
  from stable seq steps race show ?thesis by blast
qed

text \<open>
  The amended claim at the three sample handlers: with the conversation already bound
  to \<^verbatim>\<open>thread_1\<close> every schedule gives each of them \<^verbatim>\<open>thread_1\<close> and no thread is
  created; with the conversation unbound, the first two handlers interleaved create
  two threads.
\<close>

theorem thread_binding_stable_once_bound_witness:
  "threadMap (rbot (sample_resolve_sys\<lparr>rbot := addThreadToMap ''9001'' ''thread_1'' sample_state\<rparr>))
     ''9001'' = Some ''thread_1''
   \<and> ''thread_1'' \<noteq> []
   \<and> (''9001'', ResolveAwaitCreate)
       \<notin> set (handlers (sample_resolve_sys\<lparr>rbot := addThreadToMap ''9001'' ''thread_1'' sample_state\<rparr>))
   \<and> handlers (run_resolve [Suc (Suc 0), 0, Suc 0]
        (sample_resolve_sys\<lparr>rbot := addThreadToMap ''9001'' ''thread_1'' sample_state\<rparr>))
       = [(''9001'', ResolveDone (Inr ''thread_1'')),
          (''9001'', ResolveDone (Inr ''thread_1'')),
          (''9001'', ResolveDone (Inr ''thread_1''))]
   \<and> threadMap (rbot (run_resolve [Suc (Suc 0), 0, Suc 0]
        (sample_resolve_sys\<lparr>rbot := addThreadToMap ''9001'' ''thread_1'' sample_state\<rparr>)))
       ''9001'' = Some ''thread_1''
   \<and> rtrace (run_resolve [Suc (Suc 0), 0, Suc 0]
        (sample_resolve_sys\<lparr>rbot := addThreadToMap ''9001'' ''thread_1'' sample_state\<rparr>)) = []
   \<and> threadMap (rbot sample_resolve_sys) ''9001'' = None
   \<and> handlers sample_resolve_sys ! 0 = (''9001'', ResolveStart)
   \<and> handlers sample_resolve_sys ! Suc 0 = (''9001'', ResolveStart)
   \<and> backend sample_resolve_sys = [Inr ''thread_1'', Inr ''thread_2'']
   \<and> handlers (run_resolve [0, Suc 0, 0, Suc 0] sample_resolve_sys) ! 0
       = (''9001'', ResolveDone (Inr ''thread_1''))
   \<and> handlers (run_resolve [0, Suc 0, 0, Suc 0] sample_resolve_sys) ! Suc 0
       = (''9001'', ResolveDone (Inr ''thread_2''))
   \<and> rtrace (run_resolve [0, Suc 0, 0, Suc 0] sample_resolve_sys)
       = [ThreadsCreate, ThreadsCreate]
   \<and> threadMap (rbot (run_resolve [0, Suc 0, 0, Suc 0] sample_resolve_sys)) ''9001''
       = Some ''thread_2''"
proof -
  let ?bound = "sample_resolve_sys\<lparr>rbot := addThreadToMap ''9001'' ''thread_1'' sample_state\<rparr>"
  let ?ks = "[Suc (Suc 0), 0, Suc 0]"
  have b: "threadMap (rbot ?bound) ''9001'' = Some ''thread_1''"
    "(''9001'', ResolveAwaitCreate) \<notin> set (handlers ?bound)"
    "length (handlers ?bound) = 3" "rtrace ?bound = []"
    "handlers ?bound ! 0 = (''9001'', ResolveStart)"
    "handlers ?bound ! Suc 0 = (''9001'', ResolveStart)"
    "handlers ?bound ! Suc (Suc 0) = (''9001'', ResolveStart)"
    "handlers sample_resolve_sys
       = [(''9001'', ResolveStart), (''9001'', ResolveStart), (''9001'', ResolveStart)]"
    by (simp_all add: sample_resolve_sys_def addThreadToMap_def)
  have u: "threadMap (rbot sample_resolve_sys) ''9001'' = None"
    "handlers sample_resolve_sys ! 0 = (''9001'', ResolveStart)"
    "handlers sample_resolve_sys ! Suc 0 = (''9001'', ResolveStart)"
    "backend sample_resolve_sys = [Inr ''thread_1'', Inr ''thread_2'']"
    "length (handlers sample_resolve_sys) = 3" "rtrace sample_resolve_sys = []"
    by (simp_all add: sample_resolve_sys_def sample_state_def)
  note at0 = thread_binding_stable_once_bound
    [where sys = ?bound and c = "''9001''" and t = "''thread_1''" and ks = ?ks and k = 0]
  note at1 = thread_binding_stable_once_bound
    [where sys = ?bound and c = "''9001''" and t = "''thread_1''" and ks = ?ks and k = "Suc 0"]
  note at2 = thread_binding_stable_once_bound
    [where sys = ?bound and c = "''9001''" and t = "''thread_1''" and ks = ?ks
       and k = "Suc (Suc 0)"]
  have h0: "handlers (run_resolve ?ks ?bound) ! 0 = (''9001'', ResolveDone (Inr ''thread_1''))"
    using at0 b by (simp del: run_resolve.simps)
  have h1: "handlers (run_resolve ?ks ?bound) ! Suc 0 = (''9001'', ResolveDone (Inr ''thread_1''))"
    using at1 b by (simp del: run_resolve.simps)
  have h2: "handlers (run_resolve ?ks ?bound) ! Suc (Suc 0)
              = (''9001'', ResolveDone (Inr ''thread_1''))"
    using at2 b by (simp del: run_resolve.simps)
  have len: "length (handlers (run_resolve ?ks ?bound)) = 3"
    using b(8) by (simp add: run_resolve_length del: run_resolve.simps)
  have hs: "handlers (run_resolve ?ks ?bound)
       = [(''9001'', ResolveDone (Inr ''thread_1'')),
          (''9001'', ResolveDone (Inr ''thread_1'')),
          (''9001'', ResolveDone (Inr ''thread_1''))]"
    using h0 h1 h2 len
    by (auto simp: list_eq_iff_nth_eq less_Suc_eq numeral_3_eq_3 simp del: run_resolve.simps)
  have still: "threadMap (rbot (run_resolve ?ks ?bound)) ''9001'' = Some ''thread_1''"
    using at0 b by (simp del: run_resolve.simps)
  have none_created: "rtrace (run_resolve ?ks ?bound) = []"
    using at0 b by (simp del: run_resolve.simps)
  note race = thread_binding_stable_once_bound
    [where sys = sample_resolve_sys and c = "''9001''" and a = 0 and b = "Suc 0"
       and ?t1.0 = "''thread_1''" and ?t2.0 = "''thread_2''" and rest = "[]"]
  have r: "handlers (run_resolve [0, Suc 0, 0, Suc 0] sample_resolve_sys) ! 0
       = (''9001'', ResolveDone (Inr ''thread_1''))
   \<and> handlers (run_resolve [0, Suc 0, 0, Suc 0] sample_resolve_sys) ! Suc 0
       = (''9001'', ResolveDone (Inr ''thread_2''))
   \<and> rtrace (run_resolve [0, Suc 0, 0, Suc 0] sample_resolve_sys)
       = [ThreadsCreate, ThreadsCreate]
   \<and> threadMap (rbot (run_resolve [0, Suc 0, 0, Suc 0] sample_resolve_sys)) ''9001''
       = Some ''thread_2''"
    using race u by (simp del: run_resolve.simps)
  from b(1,2) hs still none_created u(1-4) r show ?thesis
    by (simp del: run_resolve.simps)
qed

end
